theory Spec2Isabelle
  imports Complex_Main "HOL-Library.Word" "HOL-Library.Sublist"
begin

section \<open>Data model of \<open>TrackerLocation\<close>\<close>

text \<open>
  Machine integers: \<open>uint32_t\<close>, \<open>system_tick_t\<close>, \<open>unsigned int\<close> and \<open>size_t\<close> of the
  32-bit target are \<open>32 word\<close>; arithmetic on them wraps. An \<open>int32_t\<close> is stored as its
  32 bits and read through \<open>sint\<close> wherever the source compares it as a signed number; the
  casts \<open>(uint32_t)x\<close> of the source are then the identity on the stored bits. The
  members whose declarations are in the class header (\<open>_nextEarlyWake\<close>, \<open>_earlyWake\<close>,
  \<open>_firstLockSec\<close>, \<open>_gnssStartedSec\<close>) are read by the source as \<open>uint32_t\<close> at every
  use, and are held as such; \<open>context.lastWakeMs\<close> is a 64-bit count of milliseconds.
\<close>

type_synonym u32 = "32 word"
type_synonym u64 = "64 word"

text \<open>The errno values returned by the source (newlib).\<close>

definition EBUSY :: int where "EBUSY = 16"
definition EINVAL :: int where "EINVAL = 22"

datatype CloudServiceStatus = SUCCESS | FAILURE | TIMEOUT | UNEXPECTED

datatype PublishReason = NONE | TIME | TRIGGERS | IMMEDIATE

datatype Trigger = Trigger_NORMAL | Trigger_IMMEDIATE

datatype GnssState =
  DISABLED | OFF | ERROR | ON_UNLOCKED | ON_LOCKED_UNSTABLE | ON_LOCKED_STABLE

datatype TrackerSleepError = SLEEP_NONE | TIME_IN_PAST

datatype RadioAccessTechnology = RAT_NONE | LTE | LTE_CAT_M1 | LTE_NB_IOT

record EvaluationResults =
  reason :: PublishReason
  networkNeeded :: bool
  lockWait :: bool

text \<open>\<open>tracker_location_config_t\<close>: the two intervals are \<open>int32_t\<close>.\<close>

record tracker_location_config =
  interval_min_seconds :: u32
  interval_max_seconds :: u32
  min_publish :: bool
  lock_trigger :: bool
  process_ack :: bool
  tower :: bool
  gnss :: bool
  wps :: bool
  enhance_loc :: bool
  loc_cb :: bool

text \<open>
  \<open>LocationPoint\<close>: the floating-point fields are carried through unchanged (no arithmetic
  is done on them here), so they are held as reals.
\<close>

record LocationPoint =
  locked :: bool
  stable :: bool
  epochTime :: u32
  latitude :: real
  longitude :: real
  altitude :: real
  heading :: real
  speed :: real
  horizontalAccuracy :: real
  verticalAccuracy :: real

record CellularServing =
  srv_rat :: RadioAccessTechnology
  srv_mcc :: u32
  srv_mnc :: u32
  srv_cellId :: u32
  srv_tac :: u32
  srv_signalPower :: int

record CellularNeighbors =
  nb_rat :: RadioAccessTechnology
  nb_earfcn :: u32
  nb_neighborId :: u32
  nb_signalQuality :: int
  nb_signalPower :: int
  nb_signalStrength :: int

record WiFiAccessPoint =
  bssid :: "8 word list"
  channel :: int
  rssi :: int

text \<open>
  The JSON writer of the cloud service is held as the sequence of write calls made on it
  since \<open>beginCommand\<close>; the text it renders and its \<open>dataSize()\<close> belong to the writer
  class and are parameters of the functions that read them.
\<close>

datatype json_tok =
  JName string
  | JBeginObject
  | JEndObject
  | JBeginArray
  | JEndArray
  | JStr string
  | JInt int
  | JBool bool
  | JFloat real nat

text \<open>
  A trigger name is handed over as a \<open>const char *\<close> and the pending set keeps that
  pointer, not a copy of the text. A pointer is either to a string literal, whose text
  never changes, or to a buffer of the caller, whose text is whatever the memory holds
  when it is read.
\<close>

datatype cstr = Literal string | Buffer nat

type_synonym memory = "nat \<Rightarrow> string"

fun c_str :: "memory \<Rightarrow> cstr \<Rightarrow> string" where
  "c_str mem (Literal t) = t"
| "c_str mem (Buffer a) = mem a"

text \<open>
  One invocation of a publish-completion callback: the callback (by its position of
  registration), the status, the response root and the request text it was given.
\<close>

type_synonym callback_id = nat
type_synonym invocation = "callback_id \<times> CloudServiceStatus \<times> string option \<times> string option"

text \<open>Calls made on the external services (location service, WiFi, sleep service).\<close>

datatype service_call =
  GnssStart
  | GnssStop
  | WifiOn
  | WifiOff
  | ForceFullWakeCycle
  | WakeAtSeconds u32
  | SetWayPoint real real
  | CloudSend string

record tracker_location =
  config_state :: tracker_location_config
  config_state_shadow :: tracker_location_config
  config_state_loop_safe :: tracker_location_config
  loopSampleTick :: u32
  pending_triggers :: "cstr list"
  pending_immediate :: bool
  first_publish :: bool
  pending_first_publish :: bool
  newMonotonic :: bool
  last_location_publish_sec :: u32
  monotonic_publish_sec :: u32
  firstLockSec :: u32
  gnssStartedSec :: u32
  earlyWake :: u32
  nextEarlyWake :: u32
  lastGnssState :: GnssState
  location_publish_retry_str :: "string option"
  locGenCallbacks :: "callback_id list"
  locPubCallbacks :: "callback_id list"
  pendingLocPubCallbacks :: "callback_id list"
  servingTower :: CellularServing
  towerList :: "CellularNeighbors list"
  wpsList :: "WiFiAccessPoint list"
  writer :: "json_tok list"
  cb_log :: "invocation list"
  calls :: "service_call list"

section \<open>Configuration transaction\<close>

text \<open>\<open>enter_location_config_cb\<close>: on a write, the live configuration is copied to the shadow.\<close>

definition enter_location_config_cb :: "bool \<Rightarrow> tracker_location \<Rightarrow> int \<times> tracker_location" where
  "enter_location_config_cb write s =
     (if write then (0, s\<lparr>config_state_shadow := config_state s\<rparr>) else (0, s))"

text \<open>
  \<open>exit_location_config_cb\<close>: on a write with no error so far, the shadow is validated
  (signed comparison of the two \<open>int32_t\<close>) and copied to the live configuration.
\<close>

definition exit_location_config_cb ::
  "bool \<Rightarrow> int \<Rightarrow> tracker_location \<Rightarrow> int \<times> tracker_location" where
  "exit_location_config_cb write status s =
     (if write \<and> status = 0 then
        if sint (interval_min_seconds (config_state_shadow s))
             > sint (interval_max_seconds (config_state_shadow s))
        then (- EINVAL, s)
        else (status, s\<lparr>config_state := config_state_shadow s\<rparr>)
      else (status, s))"

section \<open>Trigger set\<close>

text \<open>
  The search loop of \<open>triggerLocPub\<close>: \<open>strcmp\<close> of the text behind each pending pointer
  with the text behind the given one, as the memory \<open>mem\<close> holds them at the call; the
  first match wins. A name that is not matched is appended as the pointer given.
\<close>

fun trigger_matched :: "memory \<Rightarrow> cstr list \<Rightarrow> cstr \<Rightarrow> bool" where
  "trigger_matched mem [] n = False"
| "trigger_matched mem (t # ts) n =
     (if c_str mem t = c_str mem n then True else trigger_matched mem ts n)"

definition triggerLocPub ::
  "Trigger \<Rightarrow> cstr \<Rightarrow> memory \<Rightarrow> tracker_location \<Rightarrow> tracker_location" where
  "triggerLocPub type n mem s =
     (let s1 = (if \<not> trigger_matched mem (pending_triggers s) n
                then s\<lparr>pending_triggers := pending_triggers s @ [n]\<rparr> else s)
      in if type = Trigger_IMMEDIATE then s1\<lparr>pending_immediate := True\<rparr> else s1)"

section \<open>Publish retry manager\<close>

text \<open>
  \<open>issue_location_publish_callbacks\<close>: every pending completion callback is invoked, in
  order, with the given status, response and request text; the pending list is cleared.
\<close>

definition issue_location_publish_callbacks ::
  "CloudServiceStatus \<Rightarrow> string option \<Rightarrow> string option \<Rightarrow> tracker_location \<Rightarrow> tracker_location" where
  "issue_location_publish_callbacks status rsp_root req_event s =
     s\<lparr>cb_log := cb_log s @ map (\<lambda>cb. (cb, status, rsp_root, req_event)) (pendingLocPubCallbacks s),
       pendingLocPubCallbacks := []\<rparr>"


text \<open>
  \<open>location_publish\<close>: \<open>rval\<close> is what \<open>cloud_service.send\<close> returns, \<open>buf\<close> the text in the
  cloud service's writer buffer, \<open>malloc_ok\<close> whether the allocation of the retry buffer
  succeeds.
\<close>

definition location_publish ::
  "int \<Rightarrow> bool \<Rightarrow> string \<Rightarrow> tracker_location \<Rightarrow> tracker_location" where
  "location_publish rval malloc_ok buf s =
     (let s0 = s\<lparr>calls := calls s @
                 [CloudSend (case location_publish_retry_str s of Some r \<Rightarrow> r | None \<Rightarrow> buf)]\<rparr>
      in if rval = - EBUSY then
           (if location_publish_retry_str s0 = None then
              (if malloc_ok then s0\<lparr>location_publish_retry_str := Some buf\<rparr>
               else issue_location_publish_callbacks FAILURE None (Some buf) s0)
            else s0)
         else
           (let s1 = (if rval \<noteq> 0
                      then issue_location_publish_callbacks FAILURE None
                             (location_publish_retry_str s0) s0
                      else s0)
            in s1\<lparr>location_publish_retry_str := None\<rparr>))"

section \<open>Publish evaluator\<close>

definition LockTimeoutSec :: u32 where "LockTimeoutSec = 10"
definition MiscSleepWakeSec :: u32 where "MiscSleepWakeSec = 3"
definition LoopSampleRate :: u32 where "LoopSampleRate = 1000"

text \<open>
  \<open>evaluatePublish\<close>: \<open>now\<close> is \<open>System.uptime()\<close> and \<open>connectingTime\<close> is
  \<open>(uint32_t)_sleep.getConfigConnectingTime()\<close>.
\<close>

definition evaluatePublish :: "u32 \<Rightarrow> u32 \<Rightarrow> tracker_location \<Rightarrow> EvaluationResults" where
  "evaluatePublish now connectingTime s =
     (if pending_immediate s then
        \<lparr>reason = IMMEDIATE, networkNeeded = True, lockWait = False\<rparr>
      else if first_publish s \<and> \<not> pending_first_publish s then
        \<lparr>reason = TRIGGERS, networkNeeded = True,
         lockWait = (now - gnssStartedSec s < connectingTime)\<rparr>
      else
        (let interval = now - last_location_publish_sec s;
             maxInterval = now - monotonic_publish_sec s;
             max = interval_max_seconds (config_state s);
             maxNetwork = (if max > nextEarlyWake s then max - nextEarlyWake s else max);
             networkNeeded1 = (max \<noteq> 0 \<and> maxInterval \<ge> maxNetwork)
         in if max \<noteq> 0 \<and> maxInterval \<ge> max then
              \<lparr>reason = TIME, networkNeeded = True,
               lockWait = (maxInterval - max < LockTimeoutSec)\<rparr>
            else
              (let min = interval_min_seconds (config_state s);
                   minNetwork = (if min > nextEarlyWake s then min - nextEarlyWake s else min);
                   networkNeeded2 =
                     (if pending_triggers s \<noteq> [] \<and> (min = 0 \<or> interval \<ge> minNetwork)
                      then True else networkNeeded1)
               in if pending_triggers s \<noteq> [] \<and> (min = 0 \<or> interval \<ge> min) then
                    \<lparr>reason = TRIGGERS, networkNeeded = True,
                     lockWait = (interval - min < LockTimeoutSec)\<rparr>
                  else \<lparr>reason = NONE, networkNeeded = networkNeeded2, lockWait = False\<rparr>)))"

section \<open>Sleep coordinator\<close>

text \<open>
  \<open>onSleepPrepare\<close>: \<open>lastWakeMs\<close> is \<open>context.lastWakeMs\<close>, \<open>t_conn\<close> the configured
  connecting time, \<open>fullWake\<close> the answer of \<open>_sleep.isFullWakeCycle()\<close> and \<open>wakeAt\<close> the
  verdict of \<open>_sleep.wakeAtSeconds\<close> on a requested second (the sleep service is outside
  this file). The requests made to the sleep service are appended to \<open>calls\<close>.
\<close>

definition onSleepPrepare ::
  "u64 \<Rightarrow> u32 \<Rightarrow> bool \<Rightarrow> (u32 \<Rightarrow> TrackerSleepError) \<Rightarrow> tracker_location \<Rightarrow> tracker_location" where
  "onSleepPrepare lastWakeMs t_conn fullWake wakeAt s =
     (let interval = (if pending_triggers s \<noteq> [] then interval_min_seconds (config_state s)
                      else interval_max_seconds (config_state s));
          wake0 = last_location_publish_sec s + interval;
          s1 = (if fullWake then
                  (let lastWakeSec0 = (ucast (lastWakeMs + 500) :: u32) div 1000;
                       lastWakeSec = (if lastWakeSec0 \<ge> MiscSleepWakeSec
                                      then lastWakeSec0 - MiscSleepWakeSec else lastWakeSec0);
                       wakeToLockDurationSec =
                         (if firstLockSec s = 0 then t_conn else firstLockSec s - lastWakeSec);
                       publishVariance = last_location_publish_sec s - monotonic_publish_sec s;
                       newEarlyWakeSec0 = wakeToLockDurationSec + publishVariance + 1;
                       newEarlyWakeSec = (if newEarlyWakeSec0 > t_conn then t_conn
                                          else newEarlyWakeSec0)
                   in s\<lparr>earlyWake := newEarlyWakeSec, nextEarlyWake := newEarlyWakeSec\<rparr>)
                else s\<lparr>nextEarlyWake := (if earlyWake s = 0 then t_conn else earlyWake s)\<rparr>);
          wake1 = (if wake0 > nextEarlyWake s1 then wake0 - nextEarlyWake s1 else wake0);
          s2 = s1\<lparr>calls := calls s1 @ [WakeAtSeconds wake1]\<rparr>
      in if wakeAt wake1 = TIME_IN_PAST
         then s2\<lparr>calls := calls s2 @ [WakeAtSeconds 0]\<rparr> else s2)"

section \<open>Payload builder\<close>

text \<open>
  What the builder reads from classes outside this file: the writer's \<open>dataSize()\<close>, the
  text in its buffer, its \<open>bufferSize()\<close>, the cloud service's
  \<open>estimatedEndCommandSize()\<close>, and the two header constants \<open>TrackerLocationMaxTowerSend\<close>
  and \<open>TrackerLocationMaxWpsCollect\<close>.
\<close>

record platform =
  dataSize :: "json_tok list \<Rightarrow> u32"
  buffer :: "json_tok list \<Rightarrow> string"
  bufferSize :: u32
  estimatedEndCommandSize :: u32
  TrackerLocationMaxTowerSend :: int
  TrackerLocationMaxWpsCollect :: int

definition ObjectEstimateWpsHeaderSize :: u32 where
  "ObjectEstimateWpsHeaderSize = of_nat (length '',{\"wps\":[]}'')"

definition ObjectEstimateWpsDataSize :: u32 where
  "ObjectEstimateWpsDataSize =
     of_nat (length ''{\"bssid\":\"00:11:22:33:44:55\",\"ch\":99,\"str\":-999},'')"

text \<open>
  The send loops \<open>for (auto x : list) { if (count-- <= 0) break; ... }\<close>: the elements that
  get written.
\<close>

fun emit_limited :: "int \<Rightarrow> 'a list \<Rightarrow> 'a list" where
  "emit_limited c [] = []"
| "emit_limited c (x # xs) = (if c \<le> 0 then [] else x # emit_limited (c - 1) xs)"

text \<open>
  The modem's answer to a command is a list of lines; each line is either parsed into a
  value or not (\<open>None\<close>). \<open>serving_cb\<close> overwrites \<open>servingTower\<close> on every line (an
  unparsable one leaves it cleared), \<open>neighbor_cb\<close> appends every parsed line.
\<close>

definition empty_serving :: CellularServing where
  "empty_serving = \<lparr>srv_rat = RAT_NONE, srv_mcc = 0, srv_mnc = 0, srv_cellId = 0,
                     srv_tac = 0, srv_signalPower = 0\<rparr>"

definition serving_cb :: "CellularServing option \<Rightarrow> tracker_location \<Rightarrow> tracker_location" where
  "serving_cb line s =
     s\<lparr>servingTower := (case line of None \<Rightarrow> empty_serving | Some t \<Rightarrow> t)\<rparr>"

definition neighbor_cb :: "CellularNeighbors option \<Rightarrow> tracker_location \<Rightarrow> tracker_location" where
  "neighbor_cb line s =
     (case line of None \<Rightarrow> s | Some n \<Rightarrow> s\<lparr>towerList := towerList s @ [n]\<rparr>)"

definition serving_object :: "CellularServing \<Rightarrow> json_tok list" where
  "serving_object t =
     [JBeginObject, JName ''rat'', JStr ''lte'', JName ''mcc'', JInt (uint (srv_mcc t)),
      JName ''mnc'', JInt (uint (srv_mnc t)), JName ''lac'', JInt (uint (srv_tac t)),
      JName ''cid'', JInt (uint (srv_cellId t)), JName ''str'', JInt (srv_signalPower t),
      JEndObject]"

definition neighbor_object :: "CellularNeighbors \<Rightarrow> json_tok list" where
  "neighbor_object n =
     [JBeginObject, JName ''nid'', JInt (uint (nb_neighborId n)),
      JName ''ch'', JInt (uint (nb_earfcn n)), JName ''str'', JInt (nb_signalPower n),
      JEndObject]"

definition buildTowerInfo ::
  "platform \<Rightarrow> CellularServing option list \<Rightarrow> CellularNeighbors option list \<Rightarrow> u32
     \<Rightarrow> tracker_location \<Rightarrow> u32 \<times> tracker_location" where
  "buildTowerInfo pf serving_lines neighbor_lines sz s =
     (if \<not> tower (config_state_loop_safe s) then (0, s)
      else
        (let written = dataSize pf (writer s);
             s1 = fold serving_cb serving_lines s;
             s2 = (if srv_rat (servingTower s1) \<noteq> RAT_NONE then
                     (let s3 = fold neighbor_cb neighbor_lines (s1\<lparr>towerList := []\<rparr>)
                      in s3\<lparr>writer := writer s3 @ [JName ''towers'', JBeginArray]
                             @ serving_object (servingTower s3)
                             @ concat (map neighbor_object
                                 (emit_limited (TrackerLocationMaxTowerSend pf - 1) (towerList s3)))
                             @ [JEndArray]\<rparr>)
                   else s1)
         in (dataSize pf (writer s2) - written, s2)))"

text \<open>\<open>wifi_cb\<close>, called by the scan for every access point found.\<close>

definition wifi_cb :: "platform \<Rightarrow> WiFiAccessPoint \<Rightarrow> tracker_location \<Rightarrow> tracker_location" where
  "wifi_cb pf wap s =
     (if int (length (wpsList s)) < TrackerLocationMaxWpsCollect pf
      then s\<lparr>wpsList := wpsList s @ [wap]\<rparr> else s)"

definition hex_digit :: "nat \<Rightarrow> char" where
  "hex_digit n = ''0123456789abcdef'' ! (n mod 16)"

definition hex2 :: "8 word \<Rightarrow> string" where
  "hex2 b = [hex_digit (unat b div 16), hex_digit (unat b mod 16)]"

fun join_colon :: "string list \<Rightarrow> string" where
  "join_colon [] = []"
| "join_colon [x] = x"
| "join_colon (x # y # ys) = x @ '':'' @ join_colon (y # ys)"

text \<open>\<open>String::format("%02x:%02x:%02x:%02x:%02x:%02x", ...)\<close> on the six bytes of the BSSID.\<close>

definition format_bssid :: "8 word list \<Rightarrow> string" where
  "format_bssid bs = join_colon (map hex2 (take 6 bs))"

definition wps_object :: "WiFiAccessPoint \<Rightarrow> json_tok list" where
  "wps_object ap =
     [JBeginObject, JName ''bssid'', JStr (format_bssid (bssid ap)),
      JName ''ch'', JInt (channel ap), JName ''str'', JInt (rssi ap), JEndObject]"

text \<open>
  \<open>buildWpsInfo\<close>: \<open>scan\<close> is the list of access points the WiFi scan finds. The entry
  budget \<open>wpsCount\<close> is a \<open>size_t\<close> that the source converts to an \<open>int\<close> counter.
\<close>

definition buildWpsInfo ::
  "platform \<Rightarrow> WiFiAccessPoint list \<Rightarrow> u32 \<Rightarrow> tracker_location \<Rightarrow> u32 \<times> tracker_location" where
  "buildWpsInfo pf scan sz s =
     (if \<not> wps (config_state_loop_safe s) then (0, s)
      else
        (let written = dataSize pf (writer s);
             s2 = (if ObjectEstimateWpsHeaderSize \<ge> sz then s
                   else
                     (let wpsCount = (sz - ObjectEstimateWpsHeaderSize) div ObjectEstimateWpsDataSize
                      in if wpsCount = 0 then s
                         else
                           (let s1 = fold (wifi_cb pf) scan (s\<lparr>wpsList := []\<rparr>)
                            in if wpsList s1 \<noteq> [] then
                                 s1\<lparr>writer := writer s1 @ [JName ''wps'', JBeginArray]
                                    @ concat (map wps_object
                                        (emit_limited (sint wpsCount) (wpsList s1)))
                                    @ [JEndArray]\<rparr>
                               else s1)))
         in (dataSize pf (writer s2) - written, s2)))"

text \<open>
  What one pass of the main loop reads from outside: clocks, connectivity, the location
  service, the sleep service, the modem and the WiFi scan, the transport's answers and
  the registered field generators (\<open>run_gen env cb loc\<close> is what generator \<open>cb\<close> writes),
  and the text held by the callers' buffers.
\<close>

record loop_env =
  millis :: u32
  powered_sync :: bool
  powered_loc :: bool
  getLocation_rc :: int
  cur_loc :: LocationPoint
  radius_set :: bool
  outside_radius :: bool
  sleep_disabled :: bool
  full_wake_cycle :: bool
  connecting_time :: u32
  uptime_lock :: u32
  uptime_eval :: u32
  uptime_net :: u32
  uptime_pub :: u32
  connected_retry :: bool
  connected_pub :: bool
  send_rval_retry :: int
  send_rval_pub :: int
  malloc_ok_retry :: bool
  malloc_ok_pub :: bool
  begin_command :: "json_tok list"
  run_gen :: "callback_id \<Rightarrow> LocationPoint \<Rightarrow> json_tok list"
  serving_lines :: "CellularServing option list"
  neighbor_lines :: "CellularNeighbors option list"
  wifi_scan :: "WiFiAccessPoint list"
  memory :: memory

text \<open>The part of \<open>buildPublish\<close> that writes the \<open>loc\<close> object.\<close>

definition loc_object ::
  "loop_env \<Rightarrow> bool \<Rightarrow> tracker_location \<Rightarrow> json_tok list" where
  "loc_object env lck s =
     (let loc = cur_loc env in
      [JName ''loc'', JBeginObject]
      @ (if lck then
           [JName ''lck'', JInt 1, JName ''time'', JInt (uint (epochTime loc)),
            JName ''lat'', JFloat (latitude loc) 8, JName ''lon'', JFloat (longitude loc) 8]
           @ (if \<not> min_publish (config_state s) then
                [JName ''alt'', JFloat (altitude loc) 3, JName ''hd'', JFloat (heading loc) 2,
                 JName ''spd'', JFloat (speed loc) 2,
                 JName ''h_acc'', JFloat (horizontalAccuracy loc) 3,
                 JName ''v_acc'', JFloat (verticalAccuracy loc) 3]
              else [])
         else [JName ''lck'', JInt 0])
      @ concat (map (\<lambda>cb. run_gen env cb loc) (locGenCallbacks s))
      @ [JEndObject])"

text \<open>
  The \<open>trig\<close> array: written, and the pending set cleared, only when a name is pending.
  Each name is the text behind its pointer when the report is built.
\<close>

definition trig_array :: "string list \<Rightarrow> json_tok list" where
  "trig_array ts =
     (if ts \<noteq> [] then [JName ''trig'', JBeginArray] @ map JStr ts @ [JEndArray] else [])"

definition buildPublish :: "platform \<Rightarrow> loop_env \<Rightarrow> tracker_location \<Rightarrow> tracker_location" where
  "buildPublish pf env s =
     (let lck = (if gnss (config_state s) then locked (cur_loc env) else False);
          s1 = (if lck then s\<lparr>calls := calls s
                    @ [SetWayPoint (latitude (cur_loc env)) (longitude (cur_loc env))]\<rparr> else s);
          s2 = s1\<lparr>writer := begin_command env @ loc_object env lck s1\<rparr>;
          s3 = s2\<lparr>writer := writer s2
                         @ trig_array (map (c_str (memory env)) (pending_triggers s2)),
                  pending_triggers := []\<rparr>
      in if enhance_loc (config_state_loop_safe s3) then
           (let s4 = (if loc_cb (config_state_loop_safe s3)
                      then s3\<lparr>writer := writer s3 @ [JName ''loc_cb'', JBool True]\<rparr> else s3);
                remainingSize = bufferSize pf - 1 - dataSize pf (writer s4)
                                  - estimatedEndCommandSize pf;
                (n1, s5) = buildTowerInfo pf (serving_lines env) (neighbor_lines env) remainingSize s4;
                remainingSize1 = remainingSize - n1;
                (n2, s6) = buildWpsInfo pf (wifi_scan env) remainingSize1 s5
            in s6)
         else s3)"

section \<open>Location sampler\<close>

text \<open>
  \<open>loopLocation\<close>: returns the fix state; the sampled point is \<open>cur_loc env\<close>. With GNSS
  reporting disabled the source returns before it records the state.
\<close>

definition loopLocation :: "loop_env \<Rightarrow> tracker_location \<Rightarrow> GnssState \<times> tracker_location" where
  "loopLocation env s =
     (if \<not> gnss (config_state s) then (DISABLED, s)
      else
        (let (st, s1) =
               (if \<not> powered_loc env then (OFF, s)
                else if getLocation_rc env \<noteq> 0 then (ERROR, s)
                else if \<not> locked (cur_loc env) then (ON_UNLOCKED, s)
                else if \<not> stable (cur_loc env) then (ON_LOCKED_UNSTABLE, s)
                else (ON_LOCKED_STABLE,
                      if radius_set env \<and> outside_radius env
                      then triggerLocPub Trigger_NORMAL (Literal ''radius'') (memory env) s
                      else s));
             s2 = (if st = ON_LOCKED_STABLE \<and> st \<noteq> lastGnssState s1 then
                     (let s3 = (if firstLockSec s1 = 0
                                then s1\<lparr>firstLockSec := uptime_lock env\<rparr> else s1)
                      in if sleep_disabled env \<and> lock_trigger (config_state s3)
                         then triggerLocPub Trigger_NORMAL (Literal ''lock'') (memory env) s3
                         else s3)
                   else s1)
         in (st, s2\<lparr>lastGnssState := st\<rparr>)))"

section \<open>Main loop\<close>

definition enableNetwork :: "u32 \<Rightarrow> tracker_location \<Rightarrow> tracker_location" where
  "enableNetwork now s = s\<lparr>calls := calls s @ [ForceFullWakeCycle], gnssStartedSec := now\<rparr>"

definition service :: "service_call \<Rightarrow> tracker_location \<Rightarrow> tracker_location" where
  "service c s = s\<lparr>calls := calls s @ [c]\<rparr>"

text \<open>The power-state synchronisation at the head of a pass, up to the copy of the configuration.\<close>

definition loop_sync :: "loop_env \<Rightarrow> bool \<Rightarrow> tracker_location \<Rightarrow> tracker_location" where
  "loop_sync env firstLoop s =
     (let captureConfig = config_state s;
          s1 = (if firstLoop then
                  (let s2 = (if gnss captureConfig then service GnssStart s else s)
                   in if enhance_loc captureConfig \<and> wps captureConfig then service WifiOn s2
                      else if enhance_loc captureConfig \<and> \<not> wps captureConfig
                      then service WifiOff s2 else s2)
                else
                  (let s2 = (if gnss captureConfig \<and> \<not> powered_sync env then service GnssStart s
                             else if \<not> gnss captureConfig \<and> powered_sync env
                             then service GnssStop s else s)
                   in if enhance_loc captureConfig \<and> wps captureConfig
                           \<and> \<not> wps (config_state_loop_safe s2) then service WifiOn s2
                      else if enhance_loc captureConfig \<and> \<not> wps captureConfig
                           \<and> wps (config_state_loop_safe s2) then service WifiOff s2
                      else s2))
      in s1\<lparr>config_state_loop_safe := captureConfig\<rparr>)"

text \<open>The retry of a buffered payload, attempted first when the cloud is connected.\<close>

definition loop_retry :: "platform \<Rightarrow> loop_env \<Rightarrow> tracker_location \<Rightarrow> tracker_location" where
  "loop_retry pf env s =
     (if location_publish_retry_str s \<noteq> None \<and> connected_retry env
      then location_publish (send_rval_retry env) (malloc_ok_retry env) (buffer pf (writer s)) s
      else s)"

text \<open>
  The pass up to the evaluation: the state the evaluator sees, its verdict and the fix
  state.
\<close>

definition loop_sample ::
  "platform \<Rightarrow> loop_env \<Rightarrow> tracker_location \<Rightarrow> GnssState \<times> tracker_location" where
  "loop_sample pf env s =
     loopLocation env
       (loop_retry pf env (loop_sync env (loopSampleTick s = 0) (s\<lparr>loopSampleTick := millis env\<rparr>)))"

definition loop_evaluate :: "platform \<Rightarrow> loop_env \<Rightarrow> tracker_location \<Rightarrow> EvaluationResults" where
  "loop_evaluate pf env s =
     evaluatePublish (uptime_eval env) (connecting_time env) (snd (loop_sample pf env s))"

text \<open>
  The \<open>switch\<close> on the publish reason and the fix state. The fix state \<open>ERROR\<close> has no
  case label in either inner \<open>switch\<close>.
\<close>

definition loop_decide ::
  "memory \<Rightarrow> EvaluationResults \<Rightarrow> GnssState \<Rightarrow> tracker_location
     \<Rightarrow> bool \<times> tracker_location" where
  "loop_decide mem r st s =
     (case reason r of
        NONE \<Rightarrow> (False, s)
      | TIME \<Rightarrow>
          (case st of
             DISABLED \<Rightarrow> (True, triggerLocPub Trigger_NORMAL (Literal ''time'') mem s)
           | ON_LOCKED_STABLE \<Rightarrow> (True, triggerLocPub Trigger_NORMAL (Literal ''time'') mem s)
           | ERROR \<Rightarrow> (False, s)
           | _ \<Rightarrow> (if \<not> lockWait r then (True, triggerLocPub Trigger_NORMAL (Literal ''time'') mem s)
                   else (False, s)))
      | TRIGGERS \<Rightarrow>
          (case st of
             DISABLED \<Rightarrow> (True, s\<lparr>newMonotonic := True\<rparr>)
           | ON_LOCKED_STABLE \<Rightarrow> (True, s\<lparr>newMonotonic := True\<rparr>)
           | ERROR \<Rightarrow> (False, s)
           | _ \<Rightarrow> (if \<not> lockWait r then (True, s\<lparr>newMonotonic := True\<rparr>) else (False, s)))
      | IMMEDIATE \<Rightarrow> (True, s\<lparr>pending_immediate := False, newMonotonic := True\<rparr>))"

text \<open>The body of \<open>if (publishNow && Particle.connected())\<close>.\<close>

definition loop_publish :: "platform \<Rightarrow> loop_env \<Rightarrow> tracker_location \<Rightarrow> tracker_location" where
  "loop_publish pf env s =
     (let s1 = (case location_publish_retry_str s of
                  Some r \<Rightarrow> (issue_location_publish_callbacks TIMEOUT None (Some r) s)
                              \<lparr>location_publish_retry_str := None\<rparr>
                | None \<Rightarrow> s);
          s2 = buildPublish pf env s1;
          s3 = s2\<lparr>pendingLocPubCallbacks := locPubCallbacks s2, locPubCallbacks := []\<rparr>;
          s4 = s3\<lparr>last_location_publish_sec := uptime_pub env\<rparr>;
          s5 = (if (first_publish s4 \<and> \<not> pending_first_publish s4) \<or> newMonotonic s4
                then s4\<lparr>monotonic_publish_sec := last_location_publish_sec s4,
                        newMonotonic := False\<rparr>
                else s4\<lparr>monotonic_publish_sec :=
                          monotonic_publish_sec s4 + interval_max_seconds (config_state s4)\<rparr>);
          s6 = (if \<not> process_ack (config_state s5) \<and> first_publish s5
                then s5\<lparr>first_publish := False\<rparr> else s5);
          s7 = location_publish (send_rval_pub env) (malloc_ok_pub env) (buffer pf (writer s6)) s6
      in if first_publish s7 \<and> \<not> pending_first_publish s7
         then s7\<lparr>pending_first_publish := True\<rparr> else s7)"

text \<open>Whether the pass decides to publish (\<open>publishNow\<close>), and the state at that point.\<close>

definition loop_decision ::
  "platform \<Rightarrow> loop_env \<Rightarrow> tracker_location \<Rightarrow> bool \<times> tracker_location" where
  "loop_decision pf env s =
     (let (st, s2) = loop_sample pf env s;
          r = evaluatePublish (uptime_eval env) (connecting_time env) s2;
          s3 = (if \<not> full_wake_cycle env \<and> networkNeeded r
                then enableNetwork (uptime_net env) s2 else s2)
      in loop_decide (memory env) r st s3)"

definition loop :: "platform \<Rightarrow> loop_env \<Rightarrow> tracker_location \<Rightarrow> tracker_location" where
  "loop pf env s =
     (if millis env - loopSampleTick s < LoopSampleRate then s
      else
        (let (publishNow, s4) = loop_decision pf env s
         in if publishNow \<and> connected_pub env then loop_publish pf env s4 else s4))"

section \<open>Groups of fields\<close>

text \<open>
  The fields that time the publishes, the two request flags, and what a publish leaves
  behind, grouped to state which steps of a pass leave them alone.
\<close>

abbreviation timing ::
  "tracker_location \<Rightarrow> u32 \<times> u32 \<times> bool \<times> bool \<times> tracker_location_config \<times> callback_id list" where
  "timing s \<equiv> (last_location_publish_sec s, monotonic_publish_sec s, first_publish s,
               pending_first_publish s, config_state s, locPubCallbacks s)"

abbreviation flags :: "tracker_location \<Rightarrow> bool \<times> bool" where
  "flags s \<equiv> (newMonotonic s, pending_immediate s)"

abbreviation outputs ::
  "tracker_location \<Rightarrow> json_tok list \<times> invocation list \<times> callback_id list \<times> string option" where
  "outputs s \<equiv> (writer s, cb_log s, pendingLocPubCallbacks s, location_publish_retry_str s)"

section \<open>Concrete inputs\<close>

text \<open>
  A device after its first acknowledged publish, with \<open>interval_min = 60\<close> and
  \<open>interval_max = 600\<close>, last publish and anchor at second 1000; a small platform; a pass
  of the loop at second 1050 with the cloud connected and a stable fix.
\<close>

definition ex_config :: tracker_location_config where
  "ex_config = \<lparr>interval_min_seconds = 60, interval_max_seconds = 600, min_publish = False,
     lock_trigger = False, process_ack = True, tower = False, gnss = True, wps = True,
     enhance_loc = True, loc_cb = False\<rparr>"

definition ex_state :: tracker_location where
  "ex_state = \<lparr>config_state = ex_config, config_state_shadow = ex_config,
     config_state_loop_safe = ex_config, loopSampleTick = 1000000,
     pending_triggers = [], pending_immediate = False, first_publish = False,
     pending_first_publish = False, newMonotonic = False,
     last_location_publish_sec = 1000, monotonic_publish_sec = 1000, firstLockSec = 0,
     gnssStartedSec = 0, earlyWake = 0, nextEarlyWake = 10, lastGnssState = ON_LOCKED_STABLE,
     location_publish_retry_str = None, locGenCallbacks = [], locPubCallbacks = [7],
     pendingLocPubCallbacks = [], servingTower = empty_serving, towerList = [], wpsList = [],
     writer = [], cb_log = [], calls = []\<rparr>"

definition ex_platform :: platform where
  "ex_platform = \<lparr>dataSize = (\<lambda>ts. of_nat (length ts)), buffer = (\<lambda>ts. ''payload''),
     bufferSize = 1024, estimatedEndCommandSize = 2, TrackerLocationMaxTowerSend = 5,
     TrackerLocationMaxWpsCollect = 20\<rparr>"

definition ex_point :: LocationPoint where
  "ex_point = \<lparr>locked = True, stable = True, epochTime = 1600000000, latitude = 0,
     longitude = 0, altitude = 0, heading = 0, speed = 0, horizontalAccuracy = 0,
     verticalAccuracy = 0\<rparr>"

definition ex_ap :: WiFiAccessPoint where
  "ex_ap = \<lparr>bssid = [0, 17, 34, 51, 68, 85], channel = 6, rssi = - 60\<rparr>"

definition ex_env :: loop_env where
  "ex_env = \<lparr>millis = 1050000, powered_sync = True, powered_loc = True, getLocation_rc = 0,
     cur_loc = ex_point, radius_set = False, outside_radius = False, sleep_disabled = False,
     full_wake_cycle = True, connecting_time = 90, uptime_lock = 1050, uptime_eval = 1050,
     uptime_net = 1050, uptime_pub = 1050, connected_retry = True, connected_pub = True,
     send_rval_retry = 0, send_rval_pub = 0, malloc_ok_retry = True, malloc_ok_pub = True,
     begin_command = [JBeginObject, JName ''cmd'', JStr ''loc''], run_gen = (\<lambda>cb loc. []),
     serving_lines = [], neighbor_lines = [], wifi_scan = [ex_ap, ex_ap, ex_ap],
     memory = (\<lambda>a. [])\<rparr>"

text \<open>A sleep service that refuses a wake time that is not after the current second.\<close>

definition ex_wakeAt :: "u32 \<Rightarrow> u32 \<Rightarrow> TrackerSleepError" where
  "ex_wakeAt now w = (if w \<le> now then TIME_IN_PAST else SLEEP_NONE)"

text \<open>
  Passes of the loop used below: one at second 1100 with the cloud down, and one at second
  \<open>t\<close> with the cloud connected.
\<close>

definition ex_env_down :: loop_env where
  "ex_env_down = ex_env\<lparr>millis := 1100000, uptime_lock := 1100, uptime_eval := 1100,
     uptime_net := 1100, uptime_pub := 1100, connected_retry := False, connected_pub := False\<rparr>"

definition ex_env_at :: "u32 \<Rightarrow> loop_env" where
  "ex_env_at t = ex_env\<lparr>millis := 1000 * t, uptime_lock := t, uptime_eval := t,
     uptime_net := t, uptime_pub := t\<rparr>"

text \<open>
  Two buffers of a caller: buffer 0 holds \<open>radius\<close> and buffer 1 holds \<open>lock\<close>; later the
  caller has written \<open>lock\<close> into buffer 0 as well.
\<close>

definition ex_mem_before :: memory where
  "ex_mem_before a = (if a = 0 then ''radius'' else ''lock'')"

definition ex_mem_after :: memory where
  "ex_mem_after a = ''lock''"


section \<open>Auxiliary facts\<close>

lemma trigger_matched_set:
  "trigger_matched mem ts n = (c_str mem n \<in> c_str mem ` set ts)"
  by (induction ts) auto

lemma pending_triggerLocPub:
  "pending_triggers (triggerLocPub ty n mem s) =
     (if c_str mem n \<in> c_str mem ` set (pending_triggers s) then pending_triggers s
      else pending_triggers s @ [n])"
  by (simp add: triggerLocPub_def trigger_matched_set Let_def)







lemma writer_fold_wifi_cb: "writer (fold (wifi_cb pf) scan s) = writer s"
  by (induction scan arbitrary: s) (auto simp: wifi_cb_def)







lemma clamp_le: "(if (t::u32) < x then t else x) \<le> t"
  by (simp add: not_less)

lemma nextEarlyWake_onSleepPrepare:
  "nextEarlyWake (onSleepPrepare lastWakeMs t_conn fullWake wakeAt s) =
     (if fullWake then
        (let lastWakeSec0 = (ucast (lastWakeMs + 500) :: u32) div 1000;
             lastWakeSec = (if lastWakeSec0 \<ge> MiscSleepWakeSec
                            then lastWakeSec0 - MiscSleepWakeSec else lastWakeSec0);
             wakeToLockDurationSec =
               (if firstLockSec s = 0 then t_conn else firstLockSec s - lastWakeSec);
             publishVariance = last_location_publish_sec s - monotonic_publish_sec s;
             newEarlyWakeSec0 = wakeToLockDurationSec + publishVariance + 1
         in if t_conn < newEarlyWakeSec0 then t_conn else newEarlyWakeSec0)
      else (if earlyWake s = 0 then t_conn else earlyWake s))"
  by (simp add: onSleepPrepare_def Let_def)

lemma lead_full:
  "nextEarlyWake (onSleepPrepare lastWakeMs t_conn True wakeAt s) \<le> t_conn"
  by (simp add: nextEarlyWake_onSleepPrepare Let_def clamp_le split del: if_split)

lemma calls_onSleepPrepare:
  "calls (onSleepPrepare lastWakeMs t_conn fullWake wakeAt s) =
     calls s @
     (let target = last_location_publish_sec s
                + (if pending_triggers s \<noteq> [] then interval_min_seconds (config_state s)
                   else interval_max_seconds (config_state s));
          lead = nextEarlyWake (onSleepPrepare lastWakeMs t_conn fullWake wakeAt s);
          wake = (if target > lead then target - lead else target)
      in if wakeAt wake = TIME_IN_PAST then [WakeAtSeconds wake, WakeAtSeconds 0]
         else [WakeAtSeconds wake])"
  by (cases fullWake) (simp_all add: onSleepPrepare_def Let_def)

lemma ObjectEstimateWpsHeaderSize_eq: "ObjectEstimateWpsHeaderSize = 11"
  by (simp add: ObjectEstimateWpsHeaderSize_def)

lemma ObjectEstimateWpsDataSize_eq: "ObjectEstimateWpsDataSize = 49"
  by (simp add: ObjectEstimateWpsDataSize_def)

lemma emit_limited_take: "emit_limited c xs = take (nat c) xs"
  by (induction c xs rule: emit_limited.induct) (auto simp: take_Cons' nat_diff_distrib)

lemma length_emit_limited: "length (emit_limited c xs) \<le> nat c"
  by (simp add: emit_limited_take)

lemma count_wps_objects: "count_list (concat (map wps_object aps)) JBeginObject = length aps"
  by (induction aps) (simp_all add: wps_object_def)

lemma unat_wpsCount:
  "ObjectEstimateWpsHeaderSize < sz \<Longrightarrow>
   unat ((sz - ObjectEstimateWpsHeaderSize) div ObjectEstimateWpsDataSize)
     = (unat sz - unat ObjectEstimateWpsHeaderSize) div unat ObjectEstimateWpsDataSize"
  by (simp add: unat_div unat_sub)

lemma sint_wpsCount:
  "sint ((x :: u32) div ObjectEstimateWpsDataSize) = int (unat (x div ObjectEstimateWpsDataSize))"
proof -
  have "uint x < 2 ^ 32" using uint_lt2p [of x] by simp
  then have "uint x div 49 < 2 ^ 31" by simp
  then have b: "uint (x div 49) < 2 ^ 31"
    by (simp add: uint_div)
  have "sint (x div 49) = signed_take_bit 31 (uint (x div 49))"
    by (simp add: sint_uint)
  also have "\<dots> = uint (x div 49)"
  proof (rule signed_take_bit_int_eq_self)
    show "- (2 ^ 31) \<le> uint (x div 49)"
      by (rule order_trans [OF _ uint_ge_0]) simp
    show "uint (x div 49) < 2 ^ 31"
      using b by simp
  qed
  finally have "sint (x div 49) = uint (x div 49)" .
  then show ?thesis
    by (simp add: ObjectEstimateWpsDataSize_eq)
qed

lemma triggerLocPub_normal_frame:
  "timing (triggerLocPub Trigger_NORMAL n mem s) = timing s
   \<and> flags (triggerLocPub Trigger_NORMAL n mem s) = flags s
   \<and> outputs (triggerLocPub Trigger_NORMAL n mem s) = outputs s"
  by (simp add: triggerLocPub_def Let_def)

lemma loop_sync_frame:
  "timing (loop_sync env fl s) = timing s \<and> flags (loop_sync env fl s) = flags s
   \<and> outputs (loop_sync env fl s) = outputs s
   \<and> pending_triggers (loop_sync env fl s) = pending_triggers s"
  by (simp add: loop_sync_def service_def Let_def)

lemma location_publish_frame:
  "timing (location_publish rval m buf s) = timing s
   \<and> flags (location_publish rval m buf s) = flags s
   \<and> writer (location_publish rval m buf s) = writer s
   \<and> pending_triggers (location_publish rval m buf s) = pending_triggers s"
  by (simp add: location_publish_def issue_location_publish_callbacks_def Let_def)

lemma loop_retry_frame:
  "timing (loop_retry pf env s) = timing s \<and> flags (loop_retry pf env s) = flags s
   \<and> writer (loop_retry pf env s) = writer s
   \<and> pending_triggers (loop_retry pf env s) = pending_triggers s"
  by (simp add: loop_retry_def location_publish_frame [simplified])

lemma loop_retry_disconnected: "\<not> connected_retry env \<Longrightarrow> loop_retry pf env s = s"
  by (simp add: loop_retry_def)

lemma loopLocation_frame:
  "timing (snd (loopLocation env s)) = timing s \<and> flags (snd (loopLocation env s)) = flags s
   \<and> outputs (snd (loopLocation env s)) = outputs s"
  by (simp add: loopLocation_def Let_def triggerLocPub_normal_frame [simplified])

lemma loopLocation_triggers:
  "prefix (pending_triggers s) (pending_triggers (snd (loopLocation env s)))"
  by (simp add: loopLocation_def Let_def pending_triggerLocPub)

lemma enableNetwork_frame:
  "timing (enableNetwork now s) = timing s \<and> flags (enableNetwork now s) = flags s
   \<and> outputs (enableNetwork now s) = outputs s
   \<and> pending_triggers (enableNetwork now s) = pending_triggers s"
  by (simp add: enableNetwork_def)


lemma fold_serving_cb_frame:
  "timing (fold serving_cb ls s) = timing s \<and> flags (fold serving_cb ls s) = flags s
   \<and> cb_log (fold serving_cb ls s) = cb_log s
   \<and> pendingLocPubCallbacks (fold serving_cb ls s) = pendingLocPubCallbacks s
   \<and> location_publish_retry_str (fold serving_cb ls s) = location_publish_retry_str s"
  by (induction ls arbitrary: s) (simp_all add: serving_cb_def)

lemma fold_neighbor_cb_frame:
  "timing (fold neighbor_cb ls s) = timing s \<and> flags (fold neighbor_cb ls s) = flags s
   \<and> cb_log (fold neighbor_cb ls s) = cb_log s
   \<and> pendingLocPubCallbacks (fold neighbor_cb ls s) = pendingLocPubCallbacks s
   \<and> location_publish_retry_str (fold neighbor_cb ls s) = location_publish_retry_str s"
  by (induction ls arbitrary: s) (simp_all add: neighbor_cb_def split: option.splits)

lemma fold_wifi_cb_frame:
  "timing (fold (wifi_cb pf) ls s) = timing s \<and> flags (fold (wifi_cb pf) ls s) = flags s
   \<and> cb_log (fold (wifi_cb pf) ls s) = cb_log s
   \<and> pendingLocPubCallbacks (fold (wifi_cb pf) ls s) = pendingLocPubCallbacks s
   \<and> location_publish_retry_str (fold (wifi_cb pf) ls s) = location_publish_retry_str s"
  by (induction ls arbitrary: s) (simp_all add: wifi_cb_def)

lemma buildTowerInfo_frame:
  "timing (snd (buildTowerInfo pf sl nl sz s)) = timing s
   \<and> flags (snd (buildTowerInfo pf sl nl sz s)) = flags s
   \<and> cb_log (snd (buildTowerInfo pf sl nl sz s)) = cb_log s
   \<and> pendingLocPubCallbacks (snd (buildTowerInfo pf sl nl sz s)) = pendingLocPubCallbacks s
   \<and> location_publish_retry_str (snd (buildTowerInfo pf sl nl sz s)) = location_publish_retry_str s"
  by (simp add: buildTowerInfo_def Let_def fold_serving_cb_frame [simplified]
        fold_neighbor_cb_frame [simplified])

lemma buildWpsInfo_frame:
  "timing (snd (buildWpsInfo pf scan sz s)) = timing s
   \<and> flags (snd (buildWpsInfo pf scan sz s)) = flags s
   \<and> cb_log (snd (buildWpsInfo pf scan sz s)) = cb_log s
   \<and> pendingLocPubCallbacks (snd (buildWpsInfo pf scan sz s)) = pendingLocPubCallbacks s
   \<and> location_publish_retry_str (snd (buildWpsInfo pf scan sz s)) = location_publish_retry_str s"
  by (simp add: buildWpsInfo_def Let_def fold_wifi_cb_frame [simplified])

lemma buildPublish_frame:
  "timing (buildPublish pf env s) = timing s \<and> flags (buildPublish pf env s) = flags s
   \<and> cb_log (buildPublish pf env s) = cb_log s
   \<and> pendingLocPubCallbacks (buildPublish pf env s) = pendingLocPubCallbacks s
   \<and> location_publish_retry_str (buildPublish pf env s) = location_publish_retry_str s"
  by (simp add: buildPublish_def Let_def split_beta buildTowerInfo_frame [simplified]
        buildWpsInfo_frame [simplified])

lemma loop_decide_frame:
  "timing (snd (loop_decide mem r st s)) = timing s \<and> outputs (snd (loop_decide mem r st s)) = outputs s"
  by (simp add: loop_decide_def triggerLocPub_normal_frame [simplified]
        split: PublishReason.splits GnssState.splits)

lemma loop_decide_newMonotonic:
  "fst (loop_decide mem r st s) \<Longrightarrow>
   newMonotonic (snd (loop_decide mem r st s)) = (if reason r = TIME then newMonotonic s else True)"
  by (simp add: loop_decide_def triggerLocPub_normal_frame [simplified]
        split: PublishReason.splits GnssState.splits if_splits)

lemma loop_decide_immediate:
  "reason r = IMMEDIATE \<Longrightarrow>
   loop_decide mem r st s = (True, s\<lparr>pending_immediate := False, newMonotonic := True\<rparr>)"
  by (simp add: loop_decide_def)

lemma loop_publish_times:
  "last_location_publish_sec (loop_publish pf env s) = uptime_pub env
   \<and> monotonic_publish_sec (loop_publish pf env s) =
       (if (first_publish s \<and> \<not> pending_first_publish s) \<or> newMonotonic s then uptime_pub env
        else monotonic_publish_sec s + interval_max_seconds (config_state s))"
  by (auto simp: loop_publish_def Let_def location_publish_frame [simplified]
        buildPublish_frame [simplified] issue_location_publish_callbacks_def
        split: option.splits)

lemma evaluatePublish_TIME:
  "reason (evaluatePublish now tc s) = TIME \<Longrightarrow> \<not> (first_publish s \<and> \<not> pending_first_publish s)"
  by (auto simp: evaluatePublish_def Let_def split: if_splits)

lemma evaluatePublish_IMMEDIATE:
  "reason (evaluatePublish now tc s) = IMMEDIATE \<longleftrightarrow> pending_immediate s"
  by (simp add: evaluatePublish_def Let_def)

lemma loop_sample_frame:
  "timing (snd (loop_sample pf env s)) = timing s \<and> flags (snd (loop_sample pf env s)) = flags s
   \<and> writer (snd (loop_sample pf env s)) = writer s"
  by (simp add: loop_sample_def loopLocation_frame [simplified] loop_retry_frame [simplified]
        loop_sync_frame [simplified])

lemma loop_sample_disconnected:
  "\<not> connected_retry env \<Longrightarrow> outputs (snd (loop_sample pf env s)) = outputs s"
  by (simp add: loop_sample_def loopLocation_frame [simplified] loop_retry_disconnected
        loop_sync_frame [simplified])

lemma loop_sample_triggers:
  "prefix (pending_triggers s) (pending_triggers (snd (loop_sample pf env s)))"
  using loopLocation_triggers [of "loop_retry pf env (loop_sync env (loopSampleTick s = 0)
          (s\<lparr>loopSampleTick := millis env\<rparr>))" env]
  by (simp add: loop_sample_def loop_retry_frame [simplified] loop_sync_frame [simplified])

lemma loopLocation_no_trigger:
  "\<not> (radius_set env \<and> outside_radius env) \<Longrightarrow>
   \<not> (sleep_disabled env \<and> lock_trigger (config_state s)) \<Longrightarrow>
   pending_triggers (snd (loopLocation env s)) = pending_triggers s"
  by (auto simp: loopLocation_def Let_def)

lemma loop_sample_no_trigger:
  "\<not> (radius_set env \<and> outside_radius env) \<Longrightarrow>
   \<not> (sleep_disabled env \<and> lock_trigger (config_state s)) \<Longrightarrow>
   pending_triggers (snd (loop_sample pf env s)) = pending_triggers s"
  by (simp add: loop_sample_def loopLocation_no_trigger loop_retry_frame [simplified]
        loop_sync_frame [simplified])

text \<open>
  A publish that starts with no retry buffer and whose send is accepted replaces the
  pending completion callbacks by the registered ones without invoking the former.
\<close>

lemma loop_publish_replaces_pending:
  "location_publish_retry_str s = None \<Longrightarrow> send_rval_pub env = 0 \<Longrightarrow>
   pendingLocPubCallbacks (loop_publish pf env s) = locPubCallbacks s
   \<and> cb_log (loop_publish pf env s) = cb_log s"
  by (simp add: loop_publish_def Let_def location_publish_def buildPublish_frame [simplified]
        EBUSY_def)

lemma lead_adjusted_le: "(if (l::u32) < m then m - l else m) \<le> m"
  by (simp add: word_le_nat_alt word_less_nat_alt unat_sub)

lemma unat_lead_adjusted:
  "unat (if (l::u32) < m then m - l else m) = (if unat l < unat m then unat m - unat l else unat m)"
  by (simp add: word_le_nat_alt word_less_nat_alt unat_sub)




text \<open>The requests \<open>onSleepPrepare\<close> makes to the sleep service, in every case.\<close>

lemma onSleepPrepare_requests:
  "let s' = onSleepPrepare lastWakeMs t_conn fullWake wakeAt s;
       target = last_location_publish_sec s
                + (if pending_triggers s \<noteq> [] then interval_min_seconds (config_state s)
                   else interval_max_seconds (config_state s));
       lead = nextEarlyWake s';
       wake = (if target > lead then target - lead else target)
   in calls s' = calls s @ (if wakeAt wake = TIME_IN_PAST
                            then [WakeAtSeconds wake, WakeAtSeconds 0]
                            else [WakeAtSeconds wake])
      \<and> (fullWake \<longrightarrow> lead \<le> t_conn)
      \<and> (\<not> fullWake \<longrightarrow> lead = (if earlyWake s = 0 then t_conn else earlyWake s))"
proof -
  have a: "fullWake \<longrightarrow> nextEarlyWake (onSleepPrepare lastWakeMs t_conn fullWake wakeAt s) \<le> t_conn"
    using lead_full [of lastWakeMs t_conn wakeAt s] by (cases fullWake) simp_all
  have b: "\<not> fullWake \<longrightarrow> nextEarlyWake (onSleepPrepare lastWakeMs t_conn fullWake wakeAt s)
             = (if earlyWake s = 0 then t_conn else earlyWake s)"
    by (cases fullWake) (simp_all add: nextEarlyWake_onSleepPrepare split del: if_split)
  show ?thesis
    unfolding Let_def
    using a b calls_onSleepPrepare [of lastWakeMs t_conn fullWake wakeAt s, unfolded Let_def]
    by blast
qed


lemmas ex_defs = ex_state_def ex_config_def ex_env_def ex_env_down_def ex_env_at_def
  ex_platform_def ex_point_def ex_ap_def ex_mem_before_def ex_mem_after_def

lemmas loop_defs = loop_def loop_decision_def loop_sample_def loop_evaluate_def loop_sync_def
  loop_retry_def loopLocation_def loop_decide_def enableNetwork_def service_def
  evaluatePublish_def triggerLocPub_def LoopSampleRate_def LockTimeoutSec_def Let_def

lemmas publish_defs = loop_publish_def buildPublish_def buildTowerInfo_def buildWpsInfo_def
  wifi_cb_def wps_object_def loc_object_def trig_array_def location_publish_def
  issue_location_publish_callbacks_def ObjectEstimateWpsHeaderSize_eq
  ObjectEstimateWpsDataSize_eq EBUSY_def

lemma ex_down_state:
  "loop ex_platform ex_env_down (ex_state\<lparr>pending_triggers := [Literal ''radius'']\<rparr>)
     = ex_state\<lparr>pending_triggers := [Literal ''radius''], loopSampleTick := 1100000, newMonotonic := True\<rparr>"
  by (simp add: loop_defs ex_defs)

lemma ex_down_decision:
  "loop_decision ex_platform ex_env_down (ex_state\<lparr>pending_triggers := [Literal ''radius'']\<rparr>)
     = (True, ex_state\<lparr>pending_triggers := [Literal ''radius''], loopSampleTick := 1100000, newMonotonic := True\<rparr>)"
  by (simp add: loop_defs ex_defs)

lemma ex_second_pass:
  "reason (loop_evaluate ex_platform (ex_env_at 1700)
     (ex_state\<lparr>pending_triggers := [Literal ''radius''], loopSampleTick := 1100000, newMonotonic := True\<rparr>)) = TIME
   \<and> loop_decision ex_platform (ex_env_at 1700)
     (ex_state\<lparr>pending_triggers := [Literal ''radius''], loopSampleTick := 1100000, newMonotonic := True\<rparr>)
     = (True, ex_state\<lparr>pending_triggers := [Literal ''radius'', Literal ''time''], loopSampleTick := 1700000,
                newMonotonic := True\<rparr>)"
  by (simp add: loop_defs ex_defs)


lemma loop_publishing_pass:
  assumes "\<not> millis env - loopSampleTick s < LoopSampleRate"
    and "loop_decision pf env s = (True, s4)"
    and "connected_pub env"
  shows "loop pf env s = loop_publish pf env s4"
  using assms by (simp add: loop_def)

section \<open>Configuration write transaction\<close>

text \<open>
  Claim C5. A configuration write whose shadow copy ends with \<open>interval_min_seconds\<close>
  greater than \<open>interval_max_seconds\<close> is rejected by the exit validation with \<open>-EINVAL\<close>
  and leaves the state, and so the live configuration, as it was (the live configuration
  stays as it was also when the transaction arrives at the exit with an error status); a
  write that passes the validation copies the whole shadow copy into the live
  configuration and returns 0.
\<close>

theorem exit_location_config_cb_validates:
  "(sint (interval_min_seconds (config_state_shadow s))
      > sint (interval_max_seconds (config_state_shadow s)) \<longrightarrow>
      exit_location_config_cb True 0 s = (- EINVAL, s)
      \<and> config_state (snd (exit_location_config_cb True status s)) = config_state s)
   \<and> (sint (interval_min_seconds (config_state_shadow s))
      \<le> sint (interval_max_seconds (config_state_shadow s)) \<longrightarrow>
      exit_location_config_cb True 0 s = (0, s\<lparr>config_state := config_state_shadow s\<rparr>))"
  by (simp add: exit_location_config_cb_def)

text \<open>
  The transaction of the claim: entered for writing, the shadow set to
  \<open>interval_min = 500\<close>, \<open>interval_max = 100\<close>, is rejected with \<open>-22\<close>; set to
  \<open>100\<close> and \<open>500\<close> it is committed.
\<close>

theorem exit_location_config_cb_validates_witness:
  "exit_location_config_cb True 0
     (snd (enter_location_config_cb True ex_state)
        \<lparr>config_state_shadow := ex_config\<lparr>interval_min_seconds := 500, interval_max_seconds := 100\<rparr>\<rparr>)
   = (- 22, ex_state\<lparr>config_state_shadow := ex_config\<lparr>interval_min_seconds := 500, interval_max_seconds := 100\<rparr>\<rparr>)
   \<and> exit_location_config_cb True 0
     (snd (enter_location_config_cb True ex_state)
        \<lparr>config_state_shadow := ex_config\<lparr>interval_min_seconds := 100, interval_max_seconds := 500\<rparr>\<rparr>)
   = (0, ex_state\<lparr>config_state_shadow := ex_config\<lparr>interval_min_seconds := 100, interval_max_seconds := 500\<rparr>,
          config_state := ex_config\<lparr>interval_min_seconds := 100, interval_max_seconds := 500\<rparr>\<rparr>)"
  using exit_location_config_cb_validates
    [of "snd (enter_location_config_cb True ex_state)
        \<lparr>config_state_shadow := ex_config\<lparr>interval_min_seconds := 500, interval_max_seconds := 100\<rparr>\<rparr>" 0]
    exit_location_config_cb_validates
    [of "snd (enter_location_config_cb True ex_state)
        \<lparr>config_state_shadow := ex_config\<lparr>interval_min_seconds := 100, interval_max_seconds := 500\<rparr>\<rparr>" 0]
  by (simp add: enter_location_config_cb_def ex_config_def EINVAL_def)

section \<open>Busy send\<close>

text \<open>
  Claim C4. When a send attempt returns \<open>-EBUSY\<close> and no retry buffer exists, the text of
  the writer buffer is copied as it is into the retry buffer and no completion callback
  is issued on that attempt (the pending list is kept); if the allocation of the buffer
  fails, every pending completion callback is issued at once with status \<open>FAILURE\<close> and
  the composed text, and the pending list is cleared.
\<close>

theorem location_publish_busy:
  assumes "location_publish_retry_str s = None"
  shows "location_publish_retry_str (location_publish (- EBUSY) True buf s) = Some buf
     \<and> cb_log (location_publish (- EBUSY) True buf s) = cb_log s
     \<and> pendingLocPubCallbacks (location_publish (- EBUSY) True buf s) = pendingLocPubCallbacks s
     \<and> location_publish_retry_str (location_publish (- EBUSY) False buf s) = None
     \<and> cb_log (location_publish (- EBUSY) False buf s)
         = cb_log s @ map (\<lambda>cb. (cb, FAILURE, None, Some buf)) (pendingLocPubCallbacks s)
     \<and> pendingLocPubCallbacks (location_publish (- EBUSY) False buf s) = []"
  using assms by (simp add: location_publish_def issue_location_publish_callbacks_def Let_def)

theorem location_publish_busy_witness:
  "location_publish_retry_str (ex_state\<lparr>pendingLocPubCallbacks := [7, 8]\<rparr>) = None
   \<and> location_publish_retry_str
       (location_publish (- 16) True ''{}'' (ex_state\<lparr>pendingLocPubCallbacks := [7, 8]\<rparr>)) = Some ''{}''
   \<and> cb_log (location_publish (- 16) True ''{}'' (ex_state\<lparr>pendingLocPubCallbacks := [7, 8]\<rparr>)) = []
   \<and> cb_log (location_publish (- 16) False ''{}'' (ex_state\<lparr>pendingLocPubCallbacks := [7, 8]\<rparr>))
       = [(7, FAILURE, None, Some ''{}''), (8, FAILURE, None, Some ''{}'')]"
proof -
  have h: "location_publish_retry_str (ex_state\<lparr>pendingLocPubCallbacks := [7, 8]\<rparr>) = None"
    by (simp add: ex_state_def)
  show ?thesis
    using h location_publish_busy [OF h, of "''{}''"]
    by (simp add: EBUSY_def ex_state_def)
qed

section \<open>Failed publish, retried\<close>




section \<open>Trigger set\<close>




section \<open>Publish evaluator\<close>

text \<open>
  Claim C1, as amended. With no immediate request pending, the first publish not
  outstanding and \<open>interval_max_seconds\<close> nonzero, \<open>evaluatePublish\<close> takes as
  lead-adjusted maximum \<open>interval_max - earlyWakeLead\<close> when \<open>interval_max\<close> is greater
  than the lead and \<open>interval_max\<close> itself otherwise (it is not floored at 0); it reports
  \<open>networkNeeded\<close> when the time elapsed since the anchor has reached the lead-adjusted
  maximum, and when that time has reached \<open>interval_max\<close> it returns the reason \<open>TIME\<close>
  with \<open>networkNeeded\<close> and \<open>lockWait = (elapsed - interval_max < 10)\<close>. The threshold is
  exact: \<open>networkNeeded\<close> is reported only when the elapsed time has reached the
  lead-adjusted maximum or a trigger is pending whose own lead-adjusted minimum has been
  reached; with no trigger pending and the elapsed time below the lead-adjusted maximum
  it is not reported.
\<close>

theorem evaluatePublish_max_interval:
  assumes "\<not> pending_immediate s"
    and "\<not> (first_publish s \<and> \<not> pending_first_publish s)"
    and "interval_max_seconds (config_state s) \<noteq> 0"
  shows "let elapsed = now - monotonic_publish_sec s;
             max = interval_max_seconds (config_state s);
             lead = nextEarlyWake s;
             leadAdjustedMax = (if max > lead then max - lead else max);
             interval = now - last_location_publish_sec s;
             min = interval_min_seconds (config_state s);
             leadAdjustedMin = (if min > lead then min - lead else min);
             r = evaluatePublish now tc s
         in (elapsed \<ge> leadAdjustedMax \<longrightarrow> networkNeeded r)
          \<and> (elapsed \<ge> max \<longrightarrow>
               r = \<lparr>reason = TIME, networkNeeded = True,
                    lockWait = (elapsed - max < LockTimeoutSec)\<rparr>)
          \<and> (networkNeeded r \<longleftrightarrow>
               elapsed \<ge> leadAdjustedMax
               \<or> (pending_triggers s \<noteq> [] \<and> (min = 0 \<or> interval \<ge> leadAdjustedMin)))
          \<and> (pending_triggers s = [] \<and> elapsed < leadAdjustedMax \<longrightarrow> \<not> networkNeeded r)
          \<and> (max \<le> lead \<longrightarrow> leadAdjustedMax = max)
          \<and> unat leadAdjustedMax
               = (if unat lead < unat max then unat max - unat lead else unat max)"
proof -
  let ?elapsed = "now - monotonic_publish_sec s"
  let ?max = "interval_max_seconds (config_state s)"
  let ?lead = "nextEarlyWake s"
  let ?lam = "if ?lead < ?max then ?max - ?lead else ?max"
  let ?interval = "now - last_location_publish_sec s"
  let ?min = "interval_min_seconds (config_state s)"
  let ?lami = "if ?lead < ?min then ?min - ?lead else ?min"
  let ?r = "evaluatePublish now tc s"
  have a: "?max \<le> ?elapsed \<Longrightarrow> ?lam \<le> ?elapsed"
    using lead_adjusted_le [of ?lead ?max] by (rule order_trans)
  have b: "?min \<le> ?interval \<Longrightarrow> ?lami \<le> ?interval"
    using lead_adjusted_le [of ?lead ?min] by (rule order_trans)
  have ni: "pending_immediate s = False"
    using assms(1) by simp
  have nf: "(first_publish s \<and> \<not> pending_first_publish s) = False"
    using assms(2) by blast
  have nz: "(?max = 0) = False"
    using assms(3) by simp
  have time: "?max \<le> ?elapsed \<Longrightarrow>
      ?r = \<lparr>reason = TIME, networkNeeded = True, lockWait = (?elapsed - ?max < LockTimeoutSec)\<rparr>"
    by (simp add: evaluatePublish_def Let_def ni nf nz)
  have nn: "networkNeeded ?r \<longleftrightarrow>
      ?lam \<le> ?elapsed \<or> (pending_triggers s \<noteq> [] \<and> (?min = 0 \<or> ?lami \<le> ?interval))"
  proof (cases "?max \<le> ?elapsed")
    case True
    then show ?thesis using time a by simp
  next
    case False
    show ?thesis
    proof (cases "pending_triggers s \<noteq> [] \<and> (?min = 0 \<or> ?min \<le> ?interval)")
      case True
      then have "networkNeeded ?r"
        using False by (simp add: evaluatePublish_def Let_def ni nf nz)
      moreover have "?min = 0 \<or> ?lami \<le> ?interval"
        using True b by blast
      ultimately show ?thesis using True by blast
    next
      case nt: False
      have "networkNeeded ?r =
          (if pending_triggers s \<noteq> [] \<and> (?min = 0 \<or> ?lami \<le> ?interval) then True
           else ?lam \<le> ?elapsed)"
        using False nt by (auto simp: evaluatePublish_def Let_def ni nf nz)
      then show ?thesis by auto
    qed
  qed
  have le: "?max \<le> ?lead \<Longrightarrow> ?lam = ?max"
    by (simp add: not_less [symmetric])
  show ?thesis
    unfolding Let_def
    using nn time le unat_lead_adjusted [of ?lead ?max]
    by (auto simp: not_less [symmetric])
qed

theorem evaluatePublish_max_interval_witness:
  "\<not> pending_immediate ex_state
   \<and> \<not> (first_publish ex_state \<and> \<not> pending_first_publish ex_state)
   \<and> interval_max_seconds (config_state ex_state) \<noteq> 0
   \<and> \<not> networkNeeded (evaluatePublish 1580 90 ex_state)
   \<and> networkNeeded (evaluatePublish 1590 90 ex_state)
   \<and> reason (evaluatePublish 1590 90 ex_state) = NONE
   \<and> evaluatePublish 1605 90 ex_state = \<lparr>reason = TIME, networkNeeded = True, lockWait = True\<rparr>
   \<and> evaluatePublish 1610 90 ex_state = \<lparr>reason = TIME, networkNeeded = True, lockWait = False\<rparr>
   \<and> interval_max_seconds (config_state (ex_state\<lparr>config_state :=
         ex_config\<lparr>interval_min_seconds := 30, interval_max_seconds := 60\<rparr>, nextEarlyWake := 90\<rparr>))
       \<le> nextEarlyWake (ex_state\<lparr>config_state :=
         ex_config\<lparr>interval_min_seconds := 30, interval_max_seconds := 60\<rparr>, nextEarlyWake := 90\<rparr>)
   \<and> \<not> networkNeeded (evaluatePublish 1010 90 (ex_state\<lparr>config_state :=
         ex_config\<lparr>interval_min_seconds := 30, interval_max_seconds := 60\<rparr>, nextEarlyWake := 90\<rparr>))
   \<and> networkNeeded (evaluatePublish 1060 90 (ex_state\<lparr>config_state :=
         ex_config\<lparr>interval_min_seconds := 30, interval_max_seconds := 60\<rparr>, nextEarlyWake := 90\<rparr>))"
proof -
  let ?t = "ex_state\<lparr>config_state :=
         ex_config\<lparr>interval_min_seconds := 30, interval_max_seconds := 60\<rparr>, nextEarlyWake := 90\<rparr>"
  have h1: "\<not> pending_immediate ex_state"
    and h2: "\<not> (first_publish ex_state \<and> \<not> pending_first_publish ex_state)"
    and h3: "interval_max_seconds (config_state ex_state) \<noteq> 0"
    by (simp_all add: ex_state_def ex_config_def)
  have k1: "\<not> pending_immediate ?t"
    and k2: "\<not> (first_publish ?t \<and> \<not> pending_first_publish ?t)"
    and k3: "interval_max_seconds (config_state ?t) \<noteq> 0"
    by (simp_all add: ex_state_def ex_config_def)
  have r: "reason (evaluatePublish 1590 90 ex_state) = NONE"
    by (simp add: evaluatePublish_def ex_state_def ex_config_def Let_def)
  show ?thesis
    using h1 h2 h3 r
      evaluatePublish_max_interval [OF h1 h2 h3, of 1580 90]
      evaluatePublish_max_interval [OF h1 h2 h3, of 1590 90]
      evaluatePublish_max_interval [OF h1 h2 h3, of 1605 90]
      evaluatePublish_max_interval [OF h1 h2 h3, of 1610 90]
      evaluatePublish_max_interval [OF k1 k2 k3, of 1010 90]
      evaluatePublish_max_interval [OF k1 k2 k3, of 1060 90]
    by (simp add: Let_def ex_state_def ex_config_def LockTimeoutSec_def)
qed

text \<open>
  The claim as stated, with the lead-adjusted maximum floored at 0: for
  \<open>interval_max = 60\<close> and a lead of 90 seconds the floor is 0, reached by the 10 seconds
  elapsed since the anchor, and yet \<open>networkNeeded\<close> is not reported.
\<close>

theorem evaluatePublish_floor_counterexample:
  "\<not> pending_immediate (ex_state\<lparr>config_state := ex_config\<lparr>interval_min_seconds := 30, interval_max_seconds := 60\<rparr>, nextEarlyWake := 90\<rparr>)
   \<and> \<not> first_publish (ex_state\<lparr>config_state := ex_config\<lparr>interval_min_seconds := 30, interval_max_seconds := 60\<rparr>, nextEarlyWake := 90\<rparr>)
   \<and> unat (1010 - (1000 :: u32)) \<ge> unat (60 :: u32) - unat (90 :: u32)
   \<and> evaluatePublish 1010 90
        (ex_state\<lparr>config_state := ex_config\<lparr>interval_min_seconds := 30, interval_max_seconds := 60\<rparr>, nextEarlyWake := 90\<rparr>)
       = \<lparr>reason = NONE, networkNeeded = False, lockWait = False\<rparr>"
  by (simp add: evaluatePublish_def ex_state_def ex_config_def Let_def)

text \<open>
  Claim C2, as amended. With \<open>interval_min = 60\<close>, \<open>interval_max = 600\<close>, no immediate
  request pending, the first publish not outstanding, and less than 600 seconds elapsed
  since the anchor: \<open>evaluatePublish\<close> returns the reason \<open>NONE\<close> at every instant before
  60 seconds have elapsed since the last publish; with a trigger pending and a lead
  below 60, at \<open>60 - earlyWakeLead\<close> seconds after the last publish it reports
  \<open>networkNeeded\<close>, with the reason \<open>NONE\<close> unless the lead is 0; and at 60 seconds after
  the last publish it returns \<open>TRIGGERS\<close> with \<open>networkNeeded\<close> and \<open>lockWait\<close>.
\<close>

theorem evaluatePublish_trigger_scenario:
  assumes "interval_min_seconds (config_state s) = 60"
    and "interval_max_seconds (config_state s) = 600"
    and "\<not> pending_immediate s"
    and "\<not> (first_publish s \<and> \<not> pending_first_publish s)"
    and "now - monotonic_publish_sec s < 600"
  shows "(now - last_location_publish_sec s < 60 \<longrightarrow> reason (evaluatePublish now tc s) = NONE)
     \<and> (pending_triggers s \<noteq> [] \<and> nextEarlyWake s < 60
          \<and> now - last_location_publish_sec s = 60 - nextEarlyWake s \<longrightarrow>
          networkNeeded (evaluatePublish now tc s)
          \<and> reason (evaluatePublish now tc s) = (if nextEarlyWake s = 0 then TRIGGERS else NONE))
     \<and> (pending_triggers s \<noteq> [] \<and> now - last_location_publish_sec s = 60 \<longrightarrow>
          evaluatePublish now tc s = \<lparr>reason = TRIGGERS, networkNeeded = True, lockWait = True\<rparr>)"
proof -
  have a: "\<And>l :: u32. l < 60 \<Longrightarrow> l \<noteq> 0 \<Longrightarrow> 60 - l < 60"
    by (simp add: word_less_nat_alt unat_sub word_le_nat_alt unat_gt_0) 
  show ?thesis
    using assms a [of "nextEarlyWake s"]
    by (auto simp: evaluatePublish_def Let_def LockTimeoutSec_def)
qed

theorem evaluatePublish_trigger_scenario_witness:
  "interval_min_seconds (config_state (ex_state\<lparr>pending_triggers := [Literal ''radius'']\<rparr>)) = 60
   \<and> interval_max_seconds (config_state (ex_state\<lparr>pending_triggers := [Literal ''radius'']\<rparr>)) = 600
   \<and> (1060 :: u32) - monotonic_publish_sec (ex_state\<lparr>pending_triggers := [Literal ''radius'']\<rparr>) < 600
   \<and> reason (evaluatePublish 1030 90 (ex_state\<lparr>pending_triggers := [Literal ''radius'']\<rparr>)) = NONE
   \<and> networkNeeded (evaluatePublish 1050 90 (ex_state\<lparr>pending_triggers := [Literal ''radius'']\<rparr>))
   \<and> reason (evaluatePublish 1050 90 (ex_state\<lparr>pending_triggers := [Literal ''radius'']\<rparr>)) = NONE
   \<and> evaluatePublish 1060 90 (ex_state\<lparr>pending_triggers := [Literal ''radius'']\<rparr>)
       = \<lparr>reason = TRIGGERS, networkNeeded = True, lockWait = True\<rparr>"
proof -
  let ?s = "ex_state\<lparr>pending_triggers := [Literal ''radius'']\<rparr>"
  have h1: "interval_min_seconds (config_state ?s) = 60"
    and h2: "interval_max_seconds (config_state ?s) = 600"
    and h3: "\<not> pending_immediate ?s"
    and h4: "\<not> (first_publish ?s \<and> \<not> pending_first_publish ?s)"
    by (simp_all add: ex_state_def ex_config_def)
  have a1: "(1030 :: u32) - monotonic_publish_sec ?s < 600"
    and a2: "(1050 :: u32) - monotonic_publish_sec ?s < 600"
    and a3: "(1060 :: u32) - monotonic_publish_sec ?s < 600"
    by (simp_all add: ex_state_def)
  show ?thesis
    using h1 h2 a3
      evaluatePublish_trigger_scenario [OF h1 h2 h3 h4 a1, of 90]
      evaluatePublish_trigger_scenario [OF h1 h2 h3 h4 a2, of 90]
      evaluatePublish_trigger_scenario [OF h1 h2 h3 h4 a3, of 90]
    by (simp add: ex_state_def)
qed

text \<open>
  The claim as stated fails at \<open>t0 = 60 - earlyWakeLead\<close>: with a lead of 10 seconds and a
  trigger pending, 50 seconds after the last publish the reason is \<open>NONE\<close> (with
  \<open>networkNeeded\<close>), not \<open>TRIGGERS\<close>. It also fails before 60 seconds when the anchor
  lags the last publish by the maximum interval or more: with the last publish at second
  1300 and the anchor at 600, the reason at second 1310 is \<open>TIME\<close>.
\<close>

theorem evaluatePublish_trigger_counterexample:
  "(1050 :: u32) - last_location_publish_sec (ex_state\<lparr>pending_triggers := [Literal ''radius'']\<rparr>)
     = 60 - nextEarlyWake (ex_state\<lparr>pending_triggers := [Literal ''radius'']\<rparr>)
   \<and> evaluatePublish 1050 90 (ex_state\<lparr>pending_triggers := [Literal ''radius'']\<rparr>)
       = \<lparr>reason = NONE, networkNeeded = True, lockWait = False\<rparr>
   \<and> (1310 :: u32) - 1300 < 60
   \<and> reason (evaluatePublish 1310 90
        (ex_state\<lparr>last_location_publish_sec := 1300, monotonic_publish_sec := 600\<rparr>)) = TIME"
  by (simp add: evaluatePublish_def ex_state_def ex_config_def Let_def)

section \<open>Sleep coordinator\<close>

text \<open>
  Claim C8. \<open>onSleepPrepare\<close> takes as target wake time the last publish time plus
  \<open>interval_min_seconds\<close> when triggers are pending and plus \<open>interval_max_seconds\<close>
  otherwise, subtracts the early-wake lead, and cancels the sleep (wake time 0) when the
  result is already in the past; the comment in the source says so too (a wake time that
  the interval and the early adjustment put in the past is to spoil the next sleep
  attempt, and the device stays awake). The source misses the case of a target that is not greater than the
  lead. With the last publish at second 5, \<open>interval_min = 10\<close>, a trigger pending, a lead
  of 20 seconds and the current second 8: the target is 15, the lead-adjusted time
  \<open>15 - 20\<close> is before the current second, and yet the source requests the wake time 15,
  which the sleep service accepts, and never requests the wake time 0.
\<close>

theorem onSleepPrepare_failing_input:
  "last_location_publish_sec (ex_state\<lparr>last_location_publish_sec := 5, monotonic_publish_sec := 5,
        config_state := ex_config\<lparr>interval_min_seconds := 10\<rparr>, earlyWake := 20,
        pending_triggers := [Literal ''radius'']\<rparr>) + 10 = 15
   \<and> nextEarlyWake (onSleepPrepare 2000 90 False (ex_wakeAt 8)
       (ex_state\<lparr>last_location_publish_sec := 5, monotonic_publish_sec := 5,
        config_state := ex_config\<lparr>interval_min_seconds := 10\<rparr>, earlyWake := 20,
        pending_triggers := [Literal ''radius'']\<rparr>)) = 20
   \<and> calls (onSleepPrepare 2000 90 False (ex_wakeAt 8)
       (ex_state\<lparr>last_location_publish_sec := 5, monotonic_publish_sec := 5,
        config_state := ex_config\<lparr>interval_min_seconds := 10\<rparr>, earlyWake := 20,
        pending_triggers := [Literal ''radius'']\<rparr>)) = [WakeAtSeconds 15]
   \<and> (15 :: u32) \<noteq> 15 - 20
   \<and> WakeAtSeconds 0 \<notin> set (calls (onSleepPrepare 2000 90 False (ex_wakeAt 8)
       (ex_state\<lparr>last_location_publish_sec := 5, monotonic_publish_sec := 5,
        config_state := ex_config\<lparr>interval_min_seconds := 10\<rparr>, earlyWake := 20,
        pending_triggers := [Literal ''radius'']\<rparr>)))
   \<and> (15 :: int) - 20 < 8"
  by (simp add: onSleepPrepare_def Let_def ex_state_def ex_config_def ex_wakeAt_def)

section \<open>WiFi enrichment\<close>

text \<open>
  Claim C9. For every byte budget \<open>sz\<close> passed to \<open>buildWpsInfo\<close>, the number of WiFi
  entries written (the objects it opens in the writer) is at most
  \<open>(sz - ObjectEstimateWpsHeaderSize) div ObjectEstimateWpsDataSize\<close>, with the estimates
  11 and 49; and nothing is written, and 0 returned, when the budget does not exceed the
  header estimate, when that quotient is 0, or when the scan finds no access point.
\<close>

theorem buildWpsInfo_entry_bound:
  "count_list (writer (snd (buildWpsInfo pf scan sz s))) JBeginObject
     \<le> count_list (writer s) JBeginObject
        + (unat sz - unat ObjectEstimateWpsHeaderSize) div unat ObjectEstimateWpsDataSize
   \<and> (sz \<le> ObjectEstimateWpsHeaderSize
        \<or> (unat sz - unat ObjectEstimateWpsHeaderSize) div unat ObjectEstimateWpsDataSize = 0
        \<or> scan = [] \<longrightarrow>
        writer (snd (buildWpsInfo pf scan sz s)) = writer s
        \<and> fst (buildWpsInfo pf scan sz s) = 0)"
proof (cases "wps (config_state_loop_safe s) \<and> ObjectEstimateWpsHeaderSize < sz
               \<and> (sz - ObjectEstimateWpsHeaderSize) div ObjectEstimateWpsDataSize \<noteq> 0")
  case False
  then have "snd (buildWpsInfo pf scan sz s) = s \<and> fst (buildWpsInfo pf scan sz s) = 0"
    by (auto simp: buildWpsInfo_def Let_def not_less)
  then show ?thesis by simp
next
  case True
  let ?q = "(sz - ObjectEstimateWpsHeaderSize) div ObjectEstimateWpsDataSize"
  let ?s1 = "fold (wifi_cb pf) scan (s\<lparr>wpsList := []\<rparr>)"
  have nle: "\<not> sz \<le> ObjectEstimateWpsHeaderSize"
    using True by (simp add: not_le)
  have q: "unat ?q = (unat sz - unat ObjectEstimateWpsHeaderSize) div unat ObjectEstimateWpsDataSize"
    using True by (simp add: unat_wpsCount)
  have "unat ?q \<noteq> 0"
    using True by (simp add: unat_eq_0)
  then have q0: "(unat sz - unat ObjectEstimateWpsHeaderSize) div unat ObjectEstimateWpsDataSize \<noteq> 0"
    unfolding q .
  have w: "writer (snd (buildWpsInfo pf scan sz s)) =
      (if wpsList ?s1 \<noteq> [] then
         writer s @ [JName ''wps'', JBeginArray]
           @ concat (map wps_object (emit_limited (sint ?q) (wpsList ?s1))) @ [JEndArray]
       else writer s)"
    using True nle by (simp add: buildWpsInfo_def Let_def writer_fold_wifi_cb)
  have len: "length (emit_limited (sint ?q) (wpsList ?s1)) \<le> unat ?q"
    using length_emit_limited [of "sint ?q" "wpsList ?s1"] by (simp add: sint_wpsCount)
  have bound: "count_list (writer (snd (buildWpsInfo pf scan sz s))) JBeginObject
     \<le> count_list (writer s) JBeginObject + unat ?q"
    using len by (simp add: w count_wps_objects)
  have empty: "scan = [] \<Longrightarrow> snd (buildWpsInfo pf scan sz s) = s\<lparr>wpsList := []\<rparr>
       \<and> fst (buildWpsInfo pf scan sz s) = 0"
    using True nle by (simp add: buildWpsInfo_def Let_def)
  show ?thesis
  proof (intro conjI impI)
    show "count_list (writer (snd (buildWpsInfo pf scan sz s))) JBeginObject
       \<le> count_list (writer s) JBeginObject
        + (unat sz - unat ObjectEstimateWpsHeaderSize) div unat ObjectEstimateWpsDataSize"
      using bound unfolding q .
  next
    assume "sz \<le> ObjectEstimateWpsHeaderSize
        \<or> (unat sz - unat ObjectEstimateWpsHeaderSize) div unat ObjectEstimateWpsDataSize = 0
        \<or> scan = []"
    with nle q0 have "scan = []" by simp
    with empty have e: "snd (buildWpsInfo pf scan sz s) = s\<lparr>wpsList := []\<rparr>"
      and f: "fst (buildWpsInfo pf scan sz s) = 0" by blast+
    show "writer (snd (buildWpsInfo pf scan sz s)) = writer s" by (simp add: e)
    show "fst (buildWpsInfo pf scan sz s) = 0" by (rule f)
  qed
qed

theorem buildWpsInfo_entry_bound_witness:
  "count_list (writer (snd (buildWpsInfo ex_platform [ex_ap, ex_ap, ex_ap] 120 ex_state))) JBeginObject = 2
   \<and> (unat (120 :: u32) - unat ObjectEstimateWpsHeaderSize) div unat ObjectEstimateWpsDataSize = 2
   \<and> writer (snd (buildWpsInfo ex_platform [ex_ap, ex_ap, ex_ap] 11 ex_state)) = writer ex_state
   \<and> writer (snd (buildWpsInfo ex_platform [ex_ap, ex_ap, ex_ap] 59 ex_state)) = writer ex_state
   \<and> writer (snd (buildWpsInfo ex_platform [] 120 ex_state)) = writer ex_state"
proof -
  have e: "count_list (writer (snd (buildWpsInfo ex_platform [ex_ap, ex_ap, ex_ap] 120 ex_state)))
             JBeginObject = 2"
    by (simp add: buildWpsInfo_def wifi_cb_def wps_object_def Let_def ex_state_def ex_config_def
          ex_platform_def ObjectEstimateWpsHeaderSize_eq ObjectEstimateWpsDataSize_eq)
  show ?thesis
    using e
      buildWpsInfo_entry_bound [of ex_platform "[ex_ap, ex_ap, ex_ap]" 120 ex_state]
      buildWpsInfo_entry_bound [of ex_platform "[ex_ap, ex_ap, ex_ap]" 11 ex_state]
      buildWpsInfo_entry_bound [of ex_platform "[ex_ap, ex_ap, ex_ap]" 59 ex_state]
      buildWpsInfo_entry_bound [of ex_platform "[]" 120 ex_state]
    by (simp add: ObjectEstimateWpsHeaderSize_eq ObjectEstimateWpsDataSize_eq)
qed

section \<open>Main loop\<close>

text \<open>
  Claim C10. In a pass of the loop that runs, in which \<open>evaluatePublish\<close> returns the
  reason \<open>IMMEDIATE\<close> and the cloud is not connected, the pending-immediate flag is
  cleared all the same, while no payload is composed (the writer is as before), no
  completion callback is issued (the log of invocations, the pending callbacks and the
  retry buffer are as before), and the last-publish time and the anchor are unchanged; the
  pending trigger set is the one \<open>evaluatePublish\<close> decided on: every name pending at
  the start of the pass is still pending, in its place, at the end, and the set is the
  same as at the start of the pass when the location sampler of that pass raises no
  trigger of its own (no radius trigger, no lock trigger).
\<close>

theorem loop_immediate_disconnected:
  assumes runs: "\<not> millis env - loopSampleTick s < LoopSampleRate"
    and imm: "reason (loop_evaluate pf env s) = IMMEDIATE"
    and down: "\<not> connected_retry env" "\<not> connected_pub env"
  shows "\<not> pending_immediate (loop pf env s)
     \<and> writer (loop pf env s) = writer s
     \<and> cb_log (loop pf env s) = cb_log s
     \<and> pendingLocPubCallbacks (loop pf env s) = pendingLocPubCallbacks s
     \<and> location_publish_retry_str (loop pf env s) = location_publish_retry_str s
     \<and> last_location_publish_sec (loop pf env s) = last_location_publish_sec s
     \<and> monotonic_publish_sec (loop pf env s) = monotonic_publish_sec s
     \<and> pending_triggers (loop pf env s) = pending_triggers (snd (loop_sample pf env s))
     \<and> prefix (pending_triggers s) (pending_triggers (loop pf env s))
     \<and> (\<not> (radius_set env \<and> outside_radius env)
          \<and> \<not> (sleep_disabled env \<and> lock_trigger (config_state s)) \<longrightarrow>
          pending_triggers (loop pf env s) = pending_triggers s)"
proof -
  let ?s2 = "snd (loop_sample pf env s)"
  let ?r = "evaluatePublish (uptime_eval env) (connecting_time env) ?s2"
  let ?s3 = "if \<not> full_wake_cycle env \<and> networkNeeded ?r
             then enableNetwork (uptime_net env) ?s2 else ?s2"
  have r: "reason ?r = IMMEDIATE"
    using imm by (simp add: loop_evaluate_def)
  have dec: "loop_decision pf env s = (True, ?s3\<lparr>pending_immediate := False, newMonotonic := True\<rparr>)"
    using r by (simp add: loop_decision_def split_beta Let_def loop_decide_immediate)
  have l: "loop pf env s = ?s3\<lparr>pending_immediate := False, newMonotonic := True\<rparr>"
    using runs down(2) by (simp add: loop_def dec)
  have s3: "timing ?s3 = timing ?s2 \<and> outputs ?s3 = outputs ?s2
            \<and> pending_triggers ?s3 = pending_triggers ?s2"
    by (simp add: enableNetwork_frame [simplified])
  show ?thesis
    using s3 loop_sample_frame [of pf env s] loop_sample_disconnected [OF down(1), of pf s]
      loop_sample_triggers [of s pf env] loop_sample_no_trigger [of env s pf]
    by (simp add: l)
qed

theorem loop_immediate_disconnected_witness:
  "\<not> millis ex_env_down
       - loopSampleTick (triggerLocPub Trigger_IMMEDIATE (Literal ''user'') (memory ex_env_down) ex_state) < LoopSampleRate
   \<and> reason (loop_evaluate ex_platform ex_env_down
         (triggerLocPub Trigger_IMMEDIATE (Literal ''user'') (memory ex_env_down) ex_state)) = IMMEDIATE
   \<and> \<not> connected_retry ex_env_down \<and> \<not> connected_pub ex_env_down
   \<and> \<not> pending_immediate (loop ex_platform ex_env_down
         (triggerLocPub Trigger_IMMEDIATE (Literal ''user'') (memory ex_env_down) ex_state))
   \<and> pending_triggers (loop ex_platform ex_env_down
         (triggerLocPub Trigger_IMMEDIATE (Literal ''user'') (memory ex_env_down) ex_state)) = [Literal ''user'']
   \<and> last_location_publish_sec (loop ex_platform ex_env_down
         (triggerLocPub Trigger_IMMEDIATE (Literal ''user'') (memory ex_env_down) ex_state)) = 1000
   \<and> monotonic_publish_sec (loop ex_platform ex_env_down
         (triggerLocPub Trigger_IMMEDIATE (Literal ''user'') (memory ex_env_down) ex_state)) = 1000
   \<and> writer (loop ex_platform ex_env_down
         (triggerLocPub Trigger_IMMEDIATE (Literal ''user'') (memory ex_env_down) ex_state)) = []
   \<and> cb_log (loop ex_platform ex_env_down
         (triggerLocPub Trigger_IMMEDIATE (Literal ''user'') (memory ex_env_down) ex_state)) = []"
proof -
  let ?s = "triggerLocPub Trigger_IMMEDIATE (Literal ''user'') (memory ex_env_down) ex_state"
  have h1: "\<not> millis ex_env_down - loopSampleTick ?s < LoopSampleRate"
    by (simp add: loop_defs ex_defs)
  have h2: "reason (loop_evaluate ex_platform ex_env_down ?s) = IMMEDIATE"
    by (simp add: loop_defs ex_defs)
  have h3: "\<not> connected_retry ex_env_down" and h4: "\<not> connected_pub ex_env_down"
    by (simp_all add: ex_defs)
  have p: "pending_triggers (snd (loop_sample ex_platform ex_env_down ?s)) = [Literal ''user'']"
    by (simp add: loop_defs ex_defs)
  have q: "timing ?s = timing ex_state \<and> outputs ?s = outputs ex_state"
    by (simp add: triggerLocPub_def Let_def)
  show ?thesis
    using h1 h2 h3 h4 p q loop_immediate_disconnected [OF h1 h2 h3 h4]
    by (simp add: ex_state_def)
qed

text \<open>
  Claim C7, as amended. On every publish performed by a pass of the loop the
  last-publish time is set to the current uptime. On a publish with the reason \<open>TIME\<close>
  the anchor advances by exactly \<open>interval_max_seconds\<close> (modulo \<open>2^32\<close>) when the flag
  \<open>_newMonotonic\<close> is clear at the start of the pass; when the flag is still set, the
  anchor is set to the current uptime instead. On a publish with the reason \<open>TRIGGERS\<close>
  (which includes the first publish) or \<open>IMMEDIATE\<close> the anchor is set to the current
  uptime.
\<close>

theorem loop_publish_anchor:
  assumes runs: "\<not> millis env - loopSampleTick s < LoopSampleRate"
    and dec: "fst (loop_decision pf env s)"
    and conn: "connected_pub env"
  shows "last_location_publish_sec (loop pf env s) = uptime_pub env
     \<and> (reason (loop_evaluate pf env s) = TIME \<and> \<not> newMonotonic s \<longrightarrow>
          monotonic_publish_sec (loop pf env s)
            = monotonic_publish_sec s + interval_max_seconds (config_state s))
     \<and> (reason (loop_evaluate pf env s) = TIME \<and> newMonotonic s \<longrightarrow>
          monotonic_publish_sec (loop pf env s) = uptime_pub env)
     \<and> (reason (loop_evaluate pf env s) = TRIGGERS \<or> reason (loop_evaluate pf env s) = IMMEDIATE \<longrightarrow>
          monotonic_publish_sec (loop pf env s) = uptime_pub env)"
proof -
  let ?st = "fst (loop_sample pf env s)"
  let ?s2 = "snd (loop_sample pf env s)"
  let ?r = "evaluatePublish (uptime_eval env) (connecting_time env) ?s2"
  let ?s3 = "if \<not> full_wake_cycle env \<and> networkNeeded ?r
             then enableNetwork (uptime_net env) ?s2 else ?s2"
  let ?s4 = "snd (loop_decide (memory env) ?r ?st ?s3)"
  have d: "loop_decision pf env s = loop_decide (memory env) ?r ?st ?s3"
    by (simp add: loop_decision_def split_beta Let_def)
  have pub: "fst (loop_decide (memory env) ?r ?st ?s3)"
    using dec by (simp add: d)
  have l: "loop pf env s = loop_publish pf env ?s4"
    using runs conn pub by (simp add: loop_def d split_beta)
  have r: "loop_evaluate pf env s = ?r"
    by (simp add: loop_evaluate_def)
  have s3: "timing ?s3 = timing s \<and> flags ?s3 = flags s"
    using loop_sample_frame [of pf env s] by (simp add: enableNetwork_frame [simplified])
  have s4: "timing ?s4 = timing s"
    using s3 loop_decide_frame [of "memory env" ?r ?st ?s3] by simp
  have n4: "newMonotonic ?s4 = (if reason ?r = TIME then newMonotonic s else True)"
    using loop_decide_newMonotonic [OF pub] s3 by simp
  have first: "reason ?r = TIME \<Longrightarrow> \<not> (first_publish s \<and> \<not> pending_first_publish s)"
    using evaluatePublish_TIME [of "uptime_eval env" "connecting_time env" ?s2]
      loop_sample_frame [of pf env s] by simp
  show ?thesis
    using s4 n4 first loop_publish_times [of pf env ?s4]
    by (auto simp: l r)
qed

theorem loop_publish_anchor_witness:
  "\<not> millis (ex_env_at 1605) - loopSampleTick ex_state < LoopSampleRate
   \<and> fst (loop_decision ex_platform (ex_env_at 1605) ex_state)
   \<and> connected_pub (ex_env_at 1605)
   \<and> reason (loop_evaluate ex_platform (ex_env_at 1605) ex_state) = TIME
   \<and> \<not> newMonotonic ex_state
   \<and> last_location_publish_sec (loop ex_platform (ex_env_at 1605) ex_state) = 1605
   \<and> monotonic_publish_sec (loop ex_platform (ex_env_at 1605) ex_state) = 1600
   \<and> fst (loop_decision ex_platform (ex_env_at 1100) (ex_state\<lparr>pending_triggers := [Literal ''radius'']\<rparr>))
   \<and> reason (loop_evaluate ex_platform (ex_env_at 1100)
         (ex_state\<lparr>pending_triggers := [Literal ''radius'']\<rparr>)) = TRIGGERS
   \<and> last_location_publish_sec (loop ex_platform (ex_env_at 1100)
         (ex_state\<lparr>pending_triggers := [Literal ''radius'']\<rparr>)) = 1100
   \<and> monotonic_publish_sec (loop ex_platform (ex_env_at 1100)
         (ex_state\<lparr>pending_triggers := [Literal ''radius'']\<rparr>)) = 1100"
proof -
  let ?t = "ex_state\<lparr>pending_triggers := [Literal ''radius'']\<rparr>"
  have a1: "\<not> millis (ex_env_at 1605) - loopSampleTick ex_state < LoopSampleRate"
    and a2: "fst (loop_decision ex_platform (ex_env_at 1605) ex_state)"
    and a3: "connected_pub (ex_env_at 1605)"
    and a4: "reason (loop_evaluate ex_platform (ex_env_at 1605) ex_state) = TIME"
    by (simp_all add: loop_defs ex_defs)
  have b1: "\<not> millis (ex_env_at 1100) - loopSampleTick ?t < LoopSampleRate"
    and b2: "fst (loop_decision ex_platform (ex_env_at 1100) ?t)"
    and b3: "connected_pub (ex_env_at 1100)"
    and b4: "reason (loop_evaluate ex_platform (ex_env_at 1100) ?t) = TRIGGERS"
    by (simp_all add: loop_defs ex_defs)
  show ?thesis
    using a1 a2 a3 a4 b2 b4 loop_publish_anchor [OF a1 a2 a3] loop_publish_anchor [OF b1 b2 b3]
    by (simp add: ex_state_def ex_config_def ex_env_at_def ex_env_def)
qed


text \<open>
  The claim as stated fails on a publish with the reason \<open>TIME\<close> that follows a pass in
  which a trigger publish was decided but the cloud was down: that pass leaves
  \<open>_newMonotonic\<close> set. With a trigger pending, a pass at second 1100 with the cloud
  down, and then a pass at second 1700 with the cloud connected: the second pass publishes
  with the reason \<open>TIME\<close>, and the anchor, 1000 before, becomes 1700, not 1600.
\<close>

theorem loop_publish_anchor_counterexample:
  "\<not> newMonotonic (ex_state\<lparr>pending_triggers := [Literal ''radius'']\<rparr>)
   \<and> fst (loop_decision ex_platform ex_env_down (ex_state\<lparr>pending_triggers := [Literal ''radius'']\<rparr>))
   \<and> \<not> connected_pub ex_env_down
   \<and> reason (loop_evaluate ex_platform (ex_env_at 1700)
        (loop ex_platform ex_env_down (ex_state\<lparr>pending_triggers := [Literal ''radius'']\<rparr>))) = TIME
   \<and> fst (loop_decision ex_platform (ex_env_at 1700)
        (loop ex_platform ex_env_down (ex_state\<lparr>pending_triggers := [Literal ''radius'']\<rparr>)))
   \<and> connected_pub (ex_env_at 1700)
   \<and> monotonic_publish_sec
         (loop ex_platform ex_env_down (ex_state\<lparr>pending_triggers := [Literal ''radius'']\<rparr>))
       + interval_max_seconds (config_state
         (loop ex_platform ex_env_down (ex_state\<lparr>pending_triggers := [Literal ''radius'']\<rparr>))) = 1600
   \<and> monotonic_publish_sec (loop ex_platform (ex_env_at 1700)
        (loop ex_platform ex_env_down (ex_state\<lparr>pending_triggers := [Literal ''radius'']\<rparr>))) = 1700"
proof -
  let ?s1 = "ex_state\<lparr>pending_triggers := [Literal ''radius''], loopSampleTick := 1100000,
                       newMonotonic := True\<rparr>"
  let ?s4 = "ex_state\<lparr>pending_triggers := [Literal ''radius'', Literal ''time''], loopSampleTick := 1700000,
                       newMonotonic := True\<rparr>"
  have runs: "\<not> millis (ex_env_at 1700) - loopSampleTick ?s1 < LoopSampleRate"
    by (simp add: ex_defs LoopSampleRate_def)
  have conn: "connected_pub (ex_env_at 1700)"
    by (simp add: ex_defs)
  have d: "loop_decision ex_platform (ex_env_at 1700) ?s1 = (True, ?s4)"
    using ex_second_pass by simp
  have l: "loop ex_platform (ex_env_at 1700) ?s1 = loop_publish ex_platform (ex_env_at 1700) ?s4"
    using runs d conn by (rule loop_publishing_pass)
  have m: "monotonic_publish_sec (loop_publish ex_platform (ex_env_at 1700) ?s4) = 1700"
    using loop_publish_times [of ex_platform "ex_env_at 1700" ?s4] by (simp add: ex_defs)
  show ?thesis
    using ex_second_pass conn m
    by (simp add: ex_down_state ex_down_decision l d)
       (simp add: ex_defs)
qed

end
